theory Spec2Isabelle
  imports Main
begin

section \<open>Shared vocabulary: errors, log records, requests, response writers\<close>

text \<open>
  The Go sources are \<^verbatim>\<open>internal/server/response_buffer_middleware.go\<close> and the
  service file (\<^verbatim>\<open>Service\<close>, \<^verbatim>\<open>ServiceOptions\<close>).  Sentinel errors are values
  of one datatype; \<^verbatim>\<open>nil\<close> is \<open>None\<close> of \<open>error option\<close>.
\<close>

datatype error =
    ErrMaximumSizeExceeded
  | ErrNotSupported
  | ErrTargetUnavailable
  | OtherError string

datatype log_level = INFO | WARN | ERROR

text \<open>A log record: level, message and attributes; an attribute is a string or an error.\<close>

datatype log_value = Str string | Err error

type_synonym log_entry = "log_level \<times> string \<times> (string \<times> log_value) list"

text \<open>
  An \<^verbatim>\<open>http.ResponseWriter\<close> is an interface of the standard library.  The model
  keeps the calls the code makes on it, in order, and whether the value also
  implements \<^verbatim>\<open>http.Hijacker\<close>.  \<^verbatim>\<open>http.Error\<close> and \<^verbatim>\<open>http.Redirect\<close> are
  library functions applied to the writer; they are kept as one call each, with
  their arguments.
\<close>

datatype rw_call =
    HeaderSet string string
  | WriteHeaderCall int
  | WriteCall string
  | HijackCall
  | HttpError string int
  | HttpRedirect string int

record ResponseWriter =
  calls :: "rw_call list"
  isHijacker :: bool
  hijackResult :: "error option"

definition rw_do :: "rw_call \<Rightarrow> ResponseWriter \<Rightarrow> ResponseWriter" where
  "rw_do c w = w\<lparr>calls := calls w @ [c]\<rparr>"

text \<open>The status line a call puts on the wire, if it writes one.\<close>

fun call_status :: "rw_call \<Rightarrow> int option" where
  "call_status (WriteHeaderCall c) = Some c"
| "call_status (HttpError m c) = Some c"
| "call_status (HttpRedirect u c) = Some c"
| "call_status (WriteCall d) = Some 200"
| "call_status (HeaderSet k v) = None"
| "call_status HijackCall = None"

text \<open>
  What the client has received on the connection: nothing yet, a status line, or
  nothing from the server any more, because \<^verbatim>\<open>Hijack\<close> handed the connection
  over before a status was written.  The first status written wins, and
  \<^verbatim>\<open>net/http\<close> drops \<^verbatim>\<open>WriteHeader\<close> and \<^verbatim>\<open>Write\<close> on a hijacked connection.
  Every \<open>HijackCall\<close> counts as a handover; no statement below relies on what
  follows a \<^verbatim>\<open>Hijack\<close> that returned an error.
\<close>

datatype wire = NothingSent | Status int | TakenOver

fun status_sent :: "rw_call list \<Rightarrow> wire" where
  "status_sent [] = NothingSent"
| "status_sent (HijackCall # cs) = TakenOver"
| "status_sent (c # cs) = (case call_status c of Some s \<Rightarrow> Status s | None \<Rightarrow> status_sent cs)"

definition StatusOK :: int where "StatusOK = 200"
definition StatusMovedPermanently :: int where "StatusMovedPermanently = 301"
definition StatusInternalServerError :: int where "StatusInternalServerError = 500"
definition StatusServiceUnavailable :: int where "StatusServiceUnavailable = 503"
definition StatusGatewayTimeout :: int where "StatusGatewayTimeout = 504"

section \<open>The response buffer middleware\<close>

text \<open>
  \<^verbatim>\<open>Buffer\<close> (\<^verbatim>\<open>NewBufferedWriteCloser\<close>, \<^verbatim>\<open>Write\<close>, \<^verbatim>\<open>Overflowed\<close>, \<^verbatim>\<open>Send\<close>) is
  not part of the files at hand, so the writer takes the buffer's operations as a
  parameter.  \<open>Buffer_Write\<close> returns the new buffer, the count and the error;
  \<open>Buffer_Send\<close> returns the chunks it writes to the sink and its error.
\<close>

record 'b BufferOps =
  NewBufferedWriteCloser :: "int \<Rightarrow> int \<Rightarrow> 'b"
  Buffer_Write :: "'b \<Rightarrow> string \<Rightarrow> 'b \<times> int \<times> error option"
  Buffer_Overflowed :: "'b \<Rightarrow> bool"
  Buffer_Send :: "'b \<Rightarrow> string list \<times> error option"

record 'b bufferedResponseWriter =
  ResponseWriter :: ResponseWriter
  statusCode :: int
  buffer :: 'b
  hijacked :: bool

definition Send :: "'b BufferOps \<Rightarrow> 'b bufferedResponseWriter \<Rightarrow> 'b bufferedResponseWriter \<times> error option" where
  "Send ops w =
     (if Buffer_Overflowed ops (buffer w) then (w, Some ErrMaximumSizeExceeded)
      else if hijacked w then (w, None)
      else
        (let rw = rw_do (WriteHeaderCall (statusCode w)) (ResponseWriter w);
             (chunks, err) = Buffer_Send ops (buffer w)
         in (w\<lparr>ResponseWriter := rw\<lparr>calls := calls rw @ map WriteCall chunks\<rparr>\<rparr>, err)))"

definition Header_Set :: "string \<Rightarrow> string \<Rightarrow> 'b bufferedResponseWriter \<Rightarrow> 'b bufferedResponseWriter" where
  "Header_Set k v w = w\<lparr>ResponseWriter := rw_do (HeaderSet k v) (ResponseWriter w)\<rparr>"

definition WriteHeader :: "int \<Rightarrow> 'b bufferedResponseWriter \<Rightarrow> 'b bufferedResponseWriter" where
  "WriteHeader code w = w\<lparr>statusCode := code\<rparr>"

definition Write :: "'b BufferOps \<Rightarrow> 'b bufferedResponseWriter \<Rightarrow> string
    \<Rightarrow> 'b bufferedResponseWriter \<times> int \<times> error option" where
  "Write ops w data =
     (let (b, n, err) = Buffer_Write ops (buffer w) data
      in if err = Some ErrMaximumSizeExceeded
         then (w\<lparr>buffer := b\<rparr>, int (length data), None)
         else (w\<lparr>buffer := b\<rparr>, n, err))"

definition Hijack :: "'b bufferedResponseWriter \<Rightarrow> 'b bufferedResponseWriter \<times> error option" where
  "Hijack w =
     (if isHijacker (ResponseWriter w)
      then (w\<lparr>hijacked := True, ResponseWriter := rw_do HijackCall (ResponseWriter w)\<rparr>,
            hijackResult (ResponseWriter w))
      else (w, Some ErrNotSupported))"

text \<open>
  The downstream handler reaches the writer only through its methods, so one run
  of a handler is the list of calls it makes.  \<open>run_handler\<close> also keeps what each
  \<^verbatim>\<open>Write\<close> returned to the handler.
\<close>

datatype handler_call =
    CallHeaderSet string string
  | CallWriteHeader int
  | CallWrite string
  | CallHijack

fun handler_step :: "'b BufferOps \<Rightarrow> 'b bufferedResponseWriter \<times> (int \<times> error option) list
    \<Rightarrow> handler_call \<Rightarrow> 'b bufferedResponseWriter \<times> (int \<times> error option) list" where
  "handler_step ops (w, seen) (CallHeaderSet k v) = (Header_Set k v w, seen)"
| "handler_step ops (w, seen) (CallWriteHeader c) = (WriteHeader c w, seen)"
| "handler_step ops (w, seen) (CallWrite d) =
     (case Write ops w d of (w', n, err) \<Rightarrow> (w', seen @ [(n, err)]))"
| "handler_step ops (w, seen) CallHijack = (fst (Hijack w), seen)"

definition run_handler :: "'b BufferOps \<Rightarrow> handler_call list \<Rightarrow> 'b bufferedResponseWriter
    \<Rightarrow> 'b bufferedResponseWriter \<times> (int \<times> error option) list" where
  "run_handler ops cs w = foldl (handler_step ops) (w, []) cs"

text \<open>The number of bytes a handler run passes to \<^verbatim>\<open>Write\<close>.\<close>

fun total_written :: "handler_call list \<Rightarrow> nat" where
  "total_written [] = 0"
| "total_written (CallWrite d # cs) = length d + total_written cs"
| "total_written (c # cs) = total_written cs"

record ResponseBufferMiddleware =
  maxMemBytes :: int
  maxBytes :: int
  "next" :: "handler_call list"

record served =
  writer :: ResponseWriter
  logs :: "log_entry list"
  writeResults :: "(int \<times> error option) list"

text \<open>
  \<^verbatim>\<open>r.URL.Path\<close> is the only part of the request the middleware reads.  The
  deferred \<^verbatim>\<open>responseBuffer.Close()\<close> releases the buffer after the result is
  made and leaves no trace in it.
\<close>

definition ResponseBufferMiddleware_ServeHTTP :: "'b BufferOps \<Rightarrow> ResponseBufferMiddleware
    \<Rightarrow> ResponseWriter \<Rightarrow> string \<Rightarrow> served" where
  "ResponseBufferMiddleware_ServeHTTP ops h w urlPath =
     (let responseBuffer = NewBufferedWriteCloser ops (maxBytes h) (maxMemBytes h);
          responseWriter = \<lparr>ResponseWriter = w, statusCode = StatusOK,
                            buffer = responseBuffer, hijacked = False\<rparr>;
          (rw1, seen) = run_handler ops (next h) responseWriter;
          (rw2, err) = Send ops rw1
      in case err of
           None \<Rightarrow> \<lparr>writer = ResponseWriter rw2, logs = [], writeResults = seen\<rparr>
         | Some e \<Rightarrow>
             if e = ErrMaximumSizeExceeded
             then \<lparr>writer = rw_do (HttpError ''Internal Server Error'' StatusInternalServerError)
                               (ResponseWriter rw2),
                   logs = [(INFO, ''Response exceeded max response limit'', [(''path'', Str urlPath)])],
                   writeResults = seen\<rparr>
             else \<lparr>writer = rw_do (HttpError ''Internal Server Error'' StatusInternalServerError)
                               (ResponseWriter rw2),
                   logs = [(ERROR, ''Error sending response'',
                           [(''path'', Str urlPath), (''error'', Err e)])],
                   writeResults = seen\<rparr>)"

text \<open>
  Modelled from the spec: the \<^verbatim>\<open>Buffer\<close> type, whose source file is missing.  The
  spec (4.1): \<^verbatim>\<open>Write\<close> appends; a write that takes the size beyond \<open>maxBytes\<close>
  marks the buffer overflowed and returns the overflow error; \<^verbatim>\<open>Overflowed\<close> is
  true iff a write exceeded the limit; \<^verbatim>\<open>Send\<close> fails when overflowed and streams
  the content otherwise.  Memory and spilled content are one byte string here.
\<close>

record Buffer =
  bufMaxBytes :: int
  bufMaxMemBytes :: int
  bufContent :: string
  bufOverflowed :: bool

definition specBuffer_Write :: "Buffer \<Rightarrow> string \<Rightarrow> Buffer \<times> int \<times> error option" where
  "specBuffer_Write b d =
     (if bufOverflowed b \<or> int (length (bufContent b)) + int (length d) > bufMaxBytes b
      then (b\<lparr>bufOverflowed := True\<rparr>, 0, Some ErrMaximumSizeExceeded)
      else (b\<lparr>bufContent := bufContent b @ d\<rparr>, int (length d), None))"

definition specBuffer_Send :: "Buffer \<Rightarrow> string list \<times> error option" where
  "specBuffer_Send b =
     (if bufOverflowed b then ([], Some ErrMaximumSizeExceeded) else ([bufContent b], None))"

definition specBuffer :: "Buffer BufferOps" where
  "specBuffer =
     \<lparr>NewBufferedWriteCloser = (\<lambda>maxB maxMem.
          \<lparr>bufMaxBytes = maxB, bufMaxMemBytes = maxMem, bufContent = [], bufOverflowed = False\<rparr>),
      Buffer_Write = specBuffer_Write,
      Buffer_Overflowed = bufOverflowed,
      Buffer_Send = specBuffer_Send\<rparr>"

section \<open>The service\<close>

subsection \<open>Options and the certificate manager\<close>

record ServiceOptions =
  TLSHostname :: string
  ACMEDirectory :: string
  ACMECachePath :: string
  LogHeaders :: "string list"

definition RequireTLS :: "ServiceOptions \<Rightarrow> bool" where
  "RequireTLS so = (TLSHostname so \<noteq> [])"

text \<open>
  \<^verbatim>\<open>sha256\<close> with \<^verbatim>\<open>hex.EncodeToString\<close>, and \<^verbatim>\<open>path.Join\<close>, are library
  functions; they are parameters of the model.
\<close>

record lib =
  sha256_hex :: "string \<Rightarrow> string"
  path_Join :: "string \<Rightarrow> string \<Rightarrow> string"

definition ScopedCachePath :: "lib \<Rightarrow> ServiceOptions \<Rightarrow> string" where
  "ScopedCachePath l so = path_Join l (ACMECachePath so) (sha256_hex l (ACMEDirectory so))"

text \<open>The fields of \<^verbatim>\<open>autocert.Manager\<close> that \<^verbatim>\<open>createCertManager\<close> sets.\<close>

record Manager =
  Cache :: string
  HostPolicy :: string
  DirectoryURL :: string

subsection \<open>Target and PauseControl\<close>

text \<open>
  Modelled from the spec: the \<^verbatim>\<open>Target\<close> type, whose source file is missing.  The
  spec (3) gives it an address, options, a state among Adding, Healthy and
  Draining, and an in-flight counter.  The service file reads the fields
  \<^verbatim>\<open>state\<close> and \<^verbatim>\<open>options\<close>.  \<^verbatim>\<open>TargetOptions\<close> is missing too and is a type
  parameter.
\<close>

datatype TargetState = TargetStateAdding | TargetStateHealthy | TargetStateDraining

record 'to Target =
  t_address :: string
  t_options :: 'to
  t_state :: TargetState
  t_inflight :: nat

text \<open>
  Modelled from the spec: the method \<^verbatim>\<open>Target()\<close> of the missing \<^verbatim>\<open>Target\<close> file;
  it returns the address of the upstream (spec 3, 4.6.2).
\<close>

definition Target_Target :: "'to Target \<Rightarrow> string" where
  "Target_Target t = t_address t"

text \<open>
  Modelled from the spec: \<^verbatim>\<open>PauseControl\<close>, whose source file is missing.  The spec
  (3, 4.4) gives it a state among Running, Paused and Stopped; a new one is
  Running.  \<^verbatim>\<open>Wait\<close> blocks on other goroutines and on time; its result for the
  request at hand is a parameter of the model (\<open>Wait\<close> below).
\<close>

datatype PauseState = PauseStateRunning | PauseStatePaused | PauseStateStopped

datatype PauseWaitAction =
  PauseWaitActionProceed | PauseWaitActionTimedOut | PauseWaitActionUnavailable

record PauseControl =
  pc_state :: PauseState

definition NewPauseControl :: PauseControl where
  "NewPauseControl = \<lparr>pc_state = PauseStateRunning\<rparr>"

definition State :: "PauseControl \<Rightarrow> PauseState" where
  "State pc = pc_state pc"

subsection \<open>Requests and the context slots\<close>

text \<open>
  A context value is an \<^verbatim>\<open>any\<close>.  The type assertions \<^verbatim>\<open>.(*string)\<close> and
  \<^verbatim>\<open>.(*[]string)\<close> succeed on a value of that dynamic type, also when the
  pointer itself is nil (\<open>None\<close>); a missing key gives the nil interface, on
  which they fail.  The cells the pointers refer to live in a store.
\<close>

datatype ctx_value = StringPtr "nat option" | StringsPtr "nat option" | OtherValue

record Store =
  stringCells :: "nat \<Rightarrow> string"
  stringsCells :: "nat \<Rightarrow> string list"

datatype panic = NilPointerDereference

record Request =
  r_Method :: string
  r_Host :: string
  r_TLS :: bool
  r_URLPath :: string
  r_RequestURI :: string
  r_UserAgent :: string
  r_ctxService :: "ctx_value option"
  r_ctxHeaders :: "ctx_value option"
  r_ctxTarget :: "ctx_value option"

text \<open>
  \<open>r_TLS\<close> is \<^verbatim>\<open>r.TLS != nil\<close>, \<open>r_URLPath\<close> is \<^verbatim>\<open>r.URL.Path\<close> and
  \<open>r_RequestURI\<close> is the value of \<^verbatim>\<open>r.URL.RequestURI()\<close>.
\<close>

subsection \<open>The service and what it is given\<close>

record 'to Service =
  name :: string
  host :: string
  options :: ServiceOptions
  active :: "'to Target option"
  pauseControl :: PauseControl
  certManager :: "Manager option"

record 'to marshalledService =
  Name :: string
  Host :: string
  ActiveTarget :: string
  Options :: ServiceOptions
  TargetOptions :: 'to

text \<open>
  The methods of \<^verbatim>\<open>Target\<close> and \<^verbatim>\<open>PauseControl\<close> that the service calls, and
  \<^verbatim>\<open>encoding/json\<close>, are parameters.  A method of \<^verbatim>\<open>*Target\<close> is called on the
  pointer, which may be nil: the parameter takes an \<open>option\<close>.
  \<open>'d\<close> is the type of the encoded document.
\<close>

record ('to, 'd) env =
  StartRequest :: "'to Target option \<Rightarrow> Request \<Rightarrow> error + Request"
  IsHealthCheckRequest :: "'to Target option \<Rightarrow> Request \<Rightarrow> bool"
  NewTarget :: "string \<Rightarrow> 'to \<Rightarrow> error + 'to Target"
  Wait :: "PauseControl \<Rightarrow> PauseWaitAction"
  json_Marshal :: "'to marshalledService \<Rightarrow> error + 'd"
  json_Unmarshal :: "'d \<Rightarrow> error + 'to marshalledService"
  library :: lib

definition createCertManager :: "lib \<Rightarrow> 'to Service \<Rightarrow> Manager option" where
  "createCertManager l s =
     (if TLSHostname (options s) = [] then None
      else Some \<lparr>Cache = ScopedCachePath l (options s),
                 HostPolicy = TLSHostname (options s),
                 DirectoryURL = ACMEDirectory (options s)\<rparr>)"

definition initialize :: "lib \<Rightarrow> 'to Service \<Rightarrow> 'to Service" where
  "initialize l s =
     (let s1 = s\<lparr>pauseControl := NewPauseControl\<rparr>
      in s1\<lparr>certManager := createCertManager l s1\<rparr>)"

text \<open>
  In \<^verbatim>\<open>NewService\<close> the struct literal leaves \<^verbatim>\<open>pauseControl\<close> nil until
  \<^verbatim>\<open>initialize\<close> sets it on the next line; the record is built with the new
  control at once.
\<close>

definition NewService :: "lib \<Rightarrow> string \<Rightarrow> string \<Rightarrow> ServiceOptions \<Rightarrow> 'to Service" where
  "NewService l nm h opts =
     initialize l \<lparr>name = nm, host = h, options = opts, active = None,
                   pauseControl = NewPauseControl, certManager = None\<rparr>"

definition UpdateOptions :: "lib \<Rightarrow> 'to Service \<Rightarrow> ServiceOptions \<Rightarrow> 'to Service" where
  "UpdateOptions l s opts =
     (let s1 = s\<lparr>options := opts\<rparr>
      in s1\<lparr>certManager := createCertManager l s1\<rparr>)"

definition Service_ActiveTarget :: "'to Service \<Rightarrow> 'to Target option" where
  "Service_ActiveTarget s = active s"

definition ClaimTarget :: "('to, 'd) env \<Rightarrow> 'to Service \<Rightarrow> Request
    \<Rightarrow> 'to Target option \<times> (error + Request)" where
  "ClaimTarget e s req = (active s, StartRequest e (active s) req)"

subsection \<open>Recording into the context slots\<close>

definition recordServiceNameForRequest :: "'to Service \<Rightarrow> Request \<Rightarrow> Store \<Rightarrow> panic + Store" where
  "recordServiceNameForRequest s req st =
     (case r_ctxService req of
        Some (StringPtr p) \<Rightarrow>
          (case p of
             None \<Rightarrow> Inl NilPointerDereference
           | Some a \<Rightarrow> Inr (st\<lparr>stringCells := (stringCells st)(a := name s)\<rparr>))
      | _ \<Rightarrow> Inr st)"

definition recordHeadersForRequest :: "'to Service \<Rightarrow> Request \<Rightarrow> Store \<Rightarrow> panic + Store" where
  "recordHeadersForRequest s req st =
     (case r_ctxHeaders req of
        Some (StringsPtr p) \<Rightarrow>
          (case p of
             None \<Rightarrow> Inl NilPointerDereference
           | Some a \<Rightarrow> Inr (st\<lparr>stringsCells := (stringsCells st)(a := LogHeaders (options s))\<rparr>))
      | _ \<Rightarrow> Inr st)"

subsection \<open>The redirect to HTTPS\<close>

text \<open>
  \<^verbatim>\<open>net.SplitHostPort\<close>, after the library's source: the port starts after the
  last colon; a host in brackets loses them; any other colon or bracket is an
  error.
\<close>

datatype AddrError =
  MissingPort | TooManyColons | MissingClosingBracket | UnexpectedOpening | UnexpectedClosing

fun IndexByte :: "string \<Rightarrow> char \<Rightarrow> nat option" where
  "IndexByte [] c = None"
| "IndexByte (x # xs) c = (if x = c then Some 0 else map_option Suc (IndexByte xs c))"

fun LastIndexByte :: "string \<Rightarrow> char \<Rightarrow> nat option" where
  "LastIndexByte [] c = None"
| "LastIndexByte (x # xs) c =
     (case LastIndexByte xs c of
        Some i \<Rightarrow> Some (Suc i)
      | None \<Rightarrow> if x = c then Some 0 else None)"

definition SplitHostPort :: "string \<Rightarrow> AddrError + string \<times> string" where
  "SplitHostPort hostport =
     (case LastIndexByte hostport CHR '':'' of
        None \<Rightarrow> Inl MissingPort
      | Some i \<Rightarrow>
          (let rest = (\<lambda>h j k.
                 if IndexByte (drop j hostport) CHR ''['' \<noteq> None then Inl UnexpectedOpening
                 else if IndexByte (drop k hostport) CHR '']'' \<noteq> None then Inl UnexpectedClosing
                 else Inr (h, drop (i + 1) hostport))
           in if hostport ! 0 = CHR ''[''
              then (case IndexByte hostport CHR '']'' of
                      None \<Rightarrow> Inl MissingClosingBracket
                    | Some end \<Rightarrow>
                        if end + 1 = length hostport then Inl MissingPort
                        else if end + 1 = i then rest (take (end - 1) (drop 1 hostport)) 1 (end + 1)
                        else if hostport ! (end + 1) = CHR '':'' then Inl TooManyColons
                        else Inl MissingPort)
              else if IndexByte (take i hostport) CHR '':'' \<noteq> None then Inl TooManyColons
              else rest (take i hostport) 0 0))"

definition redirectToHTTPS :: "'to Service \<Rightarrow> ResponseWriter \<Rightarrow> Request \<Rightarrow> ResponseWriter" where
  "redirectToHTTPS s w r =
     (let w1 = rw_do (HeaderSet ''Connection'' ''close'') w;
          h = (case SplitHostPort (r_Host r) of Inr (h, p) \<Rightarrow> h | Inl err \<Rightarrow> r_Host r);
          url = ''https://'' @ h @ r_RequestURI r
      in rw_do (HttpRedirect url StatusMovedPermanently) w1)"







subsection \<open>Serving a request\<close>

definition handlePausedAndStoppedRequests :: "('to, 'd) env \<Rightarrow> 'to Service \<Rightarrow> ResponseWriter
    \<Rightarrow> Request \<Rightarrow> ResponseWriter \<times> log_entry list \<times> bool" where
  "handlePausedAndStoppedRequests e s w r =
     (if State (pauseControl s) \<noteq> PauseStateRunning
         \<and> IsHealthCheckRequest e (Service_ActiveTarget s) r
      then (rw_do (WriteHeaderCall StatusOK) w, [], True)
      else
        (case Wait e (pauseControl s) of
           PauseWaitActionUnavailable \<Rightarrow>
             (rw_do (WriteHeaderCall StatusServiceUnavailable) w, [], True)
         | PauseWaitActionTimedOut \<Rightarrow>
             (rw_do (WriteHeaderCall StatusGatewayTimeout) w,
              [(WARN, ''Rejecting request due to expired pause'',
                [(''service'', Str (name s)), (''path'', Str (r_URLPath r))])],
              True)
         | PauseWaitActionProceed \<Rightarrow> (w, [], False)))"

text \<open>
  What one call of \<^verbatim>\<open>Service.ServeHTTP\<close> leaves behind: the writer, the log
  records, the calls of \<^verbatim>\<open>target.SendRequest\<close> (the request going upstream) and
  the store of the context cells.  \<^verbatim>\<open>SendRequest\<close> itself is in the missing
  \<^verbatim>\<open>Target\<close> file.
\<close>

record 'to handled =
  h_writer :: ResponseWriter
  h_logs :: "log_entry list"
  h_upstream :: "('to Target option \<times> Request) list"
  h_store :: Store

definition Service_ServeHTTP :: "('to, 'd) env \<Rightarrow> 'to Service \<Rightarrow> ResponseWriter \<Rightarrow> Request
    \<Rightarrow> Store \<Rightarrow> panic + 'to handled" where
  "Service_ServeHTTP e s w r st =
     (case recordServiceNameForRequest s r st of
        Inl p \<Rightarrow> Inl p
      | Inr st1 \<Rightarrow>
     (case recordHeadersForRequest s r st1 of
        Inl p \<Rightarrow> Inl p
      | Inr st2 \<Rightarrow>
          if RequireTLS (options s) \<and> \<not> r_TLS r
          then Inr \<lparr>h_writer = redirectToHTTPS s w r, h_logs = [], h_upstream = [], h_store = st2\<rparr>
          else
            (case handlePausedAndStoppedRequests e s w r of
               (w1, lg, stop) \<Rightarrow>
                 if stop
                 then Inr \<lparr>h_writer = w1, h_logs = lg, h_upstream = [], h_store = st2\<rparr>
                 else
                   (case ClaimTarget e s r of
                      (target, Inl err) \<Rightarrow>
                        Inr \<lparr>h_writer = rw_do (HttpError ''Service not available''
                                                  StatusServiceUnavailable) w1,
                             h_logs = lg, h_upstream = [], h_store = st2\<rparr>
                    | (target, Inr req) \<Rightarrow>
                        Inr \<lparr>h_writer = w1, h_logs = lg, h_upstream = [(target, req)],
                             h_store = st2\<rparr>))))"

text \<open>Whether a context value passes the type assertion of its slot.\<close>

definition is_string_ptr :: "ctx_value option \<Rightarrow> bool" where
  "is_string_ptr v = (case v of Some (StringPtr p) \<Rightarrow> True | _ \<Rightarrow> False)"

definition is_strings_ptr :: "ctx_value option \<Rightarrow> bool" where
  "is_strings_ptr v = (case v of Some (StringsPtr p) \<Rightarrow> True | _ \<Rightarrow> False)"

text \<open>The two recording steps at the head of \<^verbatim>\<open>ServeHTTP\<close>, one after the other.\<close>

definition record_slots :: "'to Service \<Rightarrow> Request \<Rightarrow> Store \<Rightarrow> panic + Store" where
  "record_slots s r st =
     (case recordServiceNameForRequest s r st of
        Inl p \<Rightarrow> Inl p
      | Inr st1 \<Rightarrow> recordHeadersForRequest s r st1)"

subsection \<open>Saving and restoring\<close>

text \<open>
  \<^verbatim>\<open>MarshalJSON\<close> reads the field \<^verbatim>\<open>options\<close> through the active target's
  pointer, which panics when there is none.
\<close>

definition MarshalJSON :: "('to, 'd) env \<Rightarrow> 'to Service \<Rightarrow> panic + (error + 'd)" where
  "MarshalJSON e s =
     (case Service_ActiveTarget s of
        None \<Rightarrow> Inl NilPointerDereference
      | Some t \<Rightarrow>
          Inr (json_Marshal e
                 \<lparr>Name = name s, Host = host s,
                  ActiveTarget = Target_Target t,
                  Options = options s, TargetOptions = t_options t\<rparr>))"

definition UnmarshalJSON :: "('to, 'd) env \<Rightarrow> 'to Service \<Rightarrow> 'd \<Rightarrow> 'to Service \<times> error option" where
  "UnmarshalJSON e s data =
     (case json_Unmarshal e data of
        Inl err \<Rightarrow> (s, Some err)
      | Inr ms \<Rightarrow>
          (let s1 = s\<lparr>name := Name ms, host := Host ms, options := Options ms\<rparr>
           in case NewTarget e (ActiveTarget ms) (TargetOptions ms) of
                Inl err \<Rightarrow> (s1, Some err)
              | Inr a \<Rightarrow>
                  (initialize (library e)
                     (s1\<lparr>active := Some (a\<lparr>t_state := TargetStateHealthy\<rparr>)\<rparr>), None)))"

subsection \<open>An environment to run the service in\<close>

text \<open>
  Modelled from the spec: the parts of \<^verbatim>\<open>Target\<close> and \<^verbatim>\<open>PauseControl\<close> that the
  service calls, as far as the service sees them.  \<^verbatim>\<open>StartRequest\<close> fails with
  \<^verbatim>\<open>TargetUnavailable\<close> when there is no target or the target is draining (spec
  4.5.1, 7) and returns the request otherwise; \<^verbatim>\<open>IsHealthCheckRequest\<close> holds
  iff the method is GET, the path is the health-check path and the user agent is
  the prober's (4.5.2); a new target is Adding with nothing in flight; \<^verbatim>\<open>Wait\<close>
  proceeds when Running, is unavailable when Stopped, and when Paused gives the
  way the pause ends, \<open>ending\<close> (4.4).  The document is the marshalled struct
  itself.
\<close>

definition specEnv :: "string \<Rightarrow> string \<Rightarrow> PauseWaitAction \<Rightarrow> lib \<Rightarrow> ('to, 'to marshalledService) env" where
  "specEnv healthCheckPath proberAgent ending l =
     \<lparr>StartRequest = (\<lambda>t req.
          case t of
            None \<Rightarrow> Inl ErrTargetUnavailable
          | Some t' \<Rightarrow> if t_state t' = TargetStateDraining then Inl ErrTargetUnavailable
                       else Inr req),
      IsHealthCheckRequest = (\<lambda>t req.
          r_Method req = ''GET'' \<and> r_URLPath req = healthCheckPath
          \<and> r_UserAgent req = proberAgent),
      NewTarget = (\<lambda>addr opts.
          Inr \<lparr>t_address = addr, t_options = opts, t_state = TargetStateAdding, t_inflight = 0\<rparr>),
      Wait = (\<lambda>pc.
          case State pc of
            PauseStateRunning \<Rightarrow> PauseWaitActionProceed
          | PauseStateStopped \<Rightarrow> PauseWaitActionUnavailable
          | PauseStatePaused \<Rightarrow> ending),
      json_Marshal = Inr,
      json_Unmarshal = Inr,
      library = l\<rparr>"

definition plainLib :: lib where
  "plainLib = \<lparr>sha256_hex = (\<lambda>x. x), path_Join = (\<lambda>a b. a @ ''/'' @ b)\<rparr>"

subsection \<open>The saved document\<close>

text \<open>
  \<^verbatim>\<open>HealthCheckConfig\<close> is declared in the service file.
\<close>

record HealthCheckConfig =
  Path :: string
  Interval :: int
  Timeout :: int

text \<open>
  Modelled from the spec: the \<^verbatim>\<open>TargetOptions\<close> struct, whose source file is
  missing.  The spec (3) lists the health check (path, interval, timeout), the
  deploy timeout, the response size limits (memory, total) and the upstream
  timeout of a request.  The JSON keys of these fields are not in the files at
  hand; the keys below stand for them.
\<close>

record TargetOptions =
  HealthCheckConfig :: HealthCheckConfig
  DeployTimeout :: int
  MaxResponseMemoryBufferSize :: int
  MaxResponseBodySize :: int
  TargetTimeout :: int

text \<open>
  How \<^verbatim>\<open>encoding/json\<close> writes a Go string: a byte that does not begin a valid
  UTF-8 sequence is replaced by U+FFFD (the bytes EF BF BD), as
  \<^verbatim>\<open>utf8.DecodeRuneInString\<close> finds them; everything else comes back from the
  decoder as it was.  \<open>rune_len\<close> is the length of the valid sequence at the head
  of a string, 0 when there is none.
\<close>

definition byte :: "char \<Rightarrow> nat" where
  "byte c = of_char c"

definition continuation :: "nat \<Rightarrow> bool" where
  "continuation b = (0x80 \<le> b \<and> b \<le> 0xBF)"

definition second_low :: "nat \<Rightarrow> nat" where
  "second_low x = (if x = 0xE0 then 0xA0 else if x = 0xF0 then 0x90 else 0x80)"

definition second_high :: "nat \<Rightarrow> nat" where
  "second_high x = (if x = 0xED then 0x9F else if x = 0xF4 then 0x8F else 0xBF)"

fun rune_len :: "string \<Rightarrow> nat" where
  "rune_len [] = 0"
| "rune_len (a # r) =
     (let x = byte a in
      if x < 0x80 then 1
      else if 0xC2 \<le> x \<and> x \<le> 0xDF then
        (case r of
           b # r1 \<Rightarrow> if continuation (byte b) then 2 else 0
         | [] \<Rightarrow> 0)
      else if 0xE0 \<le> x \<and> x \<le> 0xEF then
        (case r of
           b # c # r2 \<Rightarrow>
             if second_low x \<le> byte b \<and> byte b \<le> second_high x \<and> continuation (byte c)
             then 3 else 0
         | _ \<Rightarrow> 0)
      else if 0xF0 \<le> x \<and> x \<le> 0xF4 then
        (case r of
           b # c # d # r3 \<Rightarrow>
             if second_low x \<le> byte b \<and> byte b \<le> second_high x \<and> continuation (byte c)
                \<and> continuation (byte d)
             then 4 else 0
         | _ \<Rightarrow> 0)
      else 0)"

function valid_utf8 :: "string \<Rightarrow> bool" where
  "valid_utf8 s =
     (if s = [] then True
      else if rune_len s = 0 then False
      else valid_utf8 (drop (rune_len s) s))"
  by pat_completeness auto
termination
  by (relation "measure length") auto

function toValidUTF8 :: "string \<Rightarrow> string" where
  "toValidUTF8 s =
     (if s = [] then []
      else if rune_len s = 0 then [CHR 0xEF, CHR 0xBF, CHR 0xBD] @ toValidUTF8 (tl s)
      else take (rune_len s) s @ toValidUTF8 (drop (rune_len s) s))"
  by pat_completeness auto
termination
  by (relation "measure length") auto

declare valid_utf8.simps [simp del]
declare toValidUTF8.simps [simp del]

text \<open>
  \<^verbatim>\<open>encoding/json\<close> on the structs at hand.  The bytes of a document are kept as
  the JSON value they denote.  Decoding into a new struct finds a member by its
  key (the last one wins), leaves the zero value for a missing member or
  \<^verbatim>\<open>null\<close>, and fails on a value of another kind.  A nil and an empty slice are
  both \<open>[]\<close>.
\<close>

datatype json = JNull | JString string | JNumber int | JArray "json list"
  | JObject "(string \<times> json) list"

definition member :: "(string \<times> json) list \<Rightarrow> string \<Rightarrow> json option" where
  "member kvs k = map_of (rev kvs) k"

definition type_error :: error where
  "type_error = OtherError ''json: cannot unmarshal value into Go struct field''"

definition and_then :: "error + 'a \<Rightarrow> ('a \<Rightarrow> error + 'b) \<Rightarrow> error + 'b" where
  "and_then x f = (case x of Inl e \<Rightarrow> Inl e | Inr v \<Rightarrow> f v)"

fun dec_string :: "json option \<Rightarrow> error + string" where
  "dec_string None = Inr []"
| "dec_string (Some JNull) = Inr []"
| "dec_string (Some (JString s)) = Inr s"
| "dec_string (Some j) = Inl type_error"

fun dec_int :: "json option \<Rightarrow> error + int" where
  "dec_int None = Inr 0"
| "dec_int (Some JNull) = Inr 0"
| "dec_int (Some (JNumber n)) = Inr n"
| "dec_int (Some j) = Inl type_error"

fun dec_elements :: "json list \<Rightarrow> error + string list" where
  "dec_elements [] = Inr []"
| "dec_elements (j # js) =
     and_then (dec_string (Some j)) (\<lambda>x. and_then (dec_elements js) (\<lambda>xs. Inr (x # xs)))"

fun dec_strings :: "json option \<Rightarrow> error + string list" where
  "dec_strings None = Inr []"
| "dec_strings (Some JNull) = Inr []"
| "dec_strings (Some (JArray js)) = dec_elements js"
| "dec_strings (Some j) = Inl type_error"

fun dec_object :: "json option \<Rightarrow> error + (string \<times> json) list" where
  "dec_object None = Inr []"
| "dec_object (Some JNull) = Inr []"
| "dec_object (Some (JObject kvs)) = Inr kvs"
| "dec_object (Some j) = Inl type_error"

definition enc_string :: "string \<Rightarrow> json" where
  "enc_string s = JString (toValidUTF8 s)"

definition enc_strings :: "string list \<Rightarrow> json" where
  "enc_strings xs = JArray (map enc_string xs)"

definition enc_ServiceOptions :: "ServiceOptions \<Rightarrow> json" where
  "enc_ServiceOptions so =
     JObject [(''tls_hostname'', enc_string (TLSHostname so)),
              (''acme_directory'', enc_string (ACMEDirectory so)),
              (''acme_cache_path'', enc_string (ACMECachePath so)),
              (''log_headers'', enc_strings (LogHeaders so))]"

definition dec_ServiceOptions :: "json option \<Rightarrow> error + ServiceOptions" where
  "dec_ServiceOptions j =
     and_then (dec_object j) (\<lambda>kvs.
     and_then (dec_string (member kvs ''tls_hostname'')) (\<lambda>a.
     and_then (dec_string (member kvs ''acme_directory'')) (\<lambda>b.
     and_then (dec_string (member kvs ''acme_cache_path'')) (\<lambda>c.
     and_then (dec_strings (member kvs ''log_headers'')) (\<lambda>d.
     Inr \<lparr>TLSHostname = a, ACMEDirectory = b, ACMECachePath = c, LogHeaders = d\<rparr>)))))"

definition enc_HealthCheckConfig :: "HealthCheckConfig \<Rightarrow> json" where
  "enc_HealthCheckConfig hc =
     JObject [(''path'', enc_string (Path hc)),
              (''interval'', JNumber (Interval hc)),
              (''timeout'', JNumber (Timeout hc))]"

definition dec_HealthCheckConfig :: "json option \<Rightarrow> error + HealthCheckConfig" where
  "dec_HealthCheckConfig j =
     and_then (dec_object j) (\<lambda>kvs.
     and_then (dec_string (member kvs ''path'')) (\<lambda>a.
     and_then (dec_int (member kvs ''interval'')) (\<lambda>b.
     and_then (dec_int (member kvs ''timeout'')) (\<lambda>c.
     Inr \<lparr>Path = a, Interval = b, Timeout = c\<rparr>))))"

definition enc_TargetOptions :: "TargetOptions \<Rightarrow> json" where
  "enc_TargetOptions t =
     JObject [(''health_check_config'', enc_HealthCheckConfig (HealthCheckConfig t)),
              (''deploy_timeout'', JNumber (DeployTimeout t)),
              (''max_response_memory_buffer_size'', JNumber (MaxResponseMemoryBufferSize t)),
              (''max_response_body_size'', JNumber (MaxResponseBodySize t)),
              (''target_timeout'', JNumber (TargetTimeout t))]"

definition dec_TargetOptions :: "json option \<Rightarrow> error + TargetOptions" where
  "dec_TargetOptions j =
     and_then (dec_object j) (\<lambda>kvs.
     and_then (dec_HealthCheckConfig (member kvs ''health_check_config'')) (\<lambda>a.
     and_then (dec_int (member kvs ''deploy_timeout'')) (\<lambda>b.
     and_then (dec_int (member kvs ''max_response_memory_buffer_size'')) (\<lambda>c.
     and_then (dec_int (member kvs ''max_response_body_size'')) (\<lambda>d.
     and_then (dec_int (member kvs ''target_timeout'')) (\<lambda>e.
     Inr \<lparr>HealthCheckConfig = a, DeployTimeout = b, MaxResponseMemoryBufferSize = c,
          MaxResponseBodySize = d, TargetTimeout = e\<rparr>))))))"

definition enc_marshalledService :: "TargetOptions marshalledService \<Rightarrow> json" where
  "enc_marshalledService ms =
     JObject [(''name'', enc_string (Name ms)),
              (''host'', enc_string (Host ms)),
              (''active_target'', enc_string (ActiveTarget ms)),
              (''options'', enc_ServiceOptions (Options ms)),
              (''target_options'', enc_TargetOptions (TargetOptions ms))]"

definition dec_marshalledService :: "json option \<Rightarrow> error + TargetOptions marshalledService" where
  "dec_marshalledService j =
     and_then (dec_object j) (\<lambda>kvs.
     and_then (dec_string (member kvs ''name'')) (\<lambda>a.
     and_then (dec_string (member kvs ''host'')) (\<lambda>b.
     and_then (dec_string (member kvs ''active_target'')) (\<lambda>c.
     and_then (dec_ServiceOptions (member kvs ''options'')) (\<lambda>d.
     and_then (dec_TargetOptions (member kvs ''target_options'')) (\<lambda>e.
     Inr \<lparr>Name = a, Host = b, ActiveTarget = c, Options = d, TargetOptions = e\<rparr>))))))"

text \<open>
  Modelled from the spec: an environment for saving and restoring.  The target
  operations are those of \<open>specEnv\<close> (a new target has the given address and
  options and is Adding); \<^verbatim>\<open>json.Marshal\<close> and \<^verbatim>\<open>json.Unmarshal\<close> are the
  functions above.
\<close>

definition savedEnv :: "lib \<Rightarrow> (TargetOptions, json) env" where
  "savedEnv l =
     \<lparr>StartRequest = StartRequest (specEnv [] [] PauseWaitActionProceed l
          :: (TargetOptions, TargetOptions marshalledService) env),
      IsHealthCheckRequest = IsHealthCheckRequest (specEnv [] [] PauseWaitActionProceed l
          :: (TargetOptions, TargetOptions marshalledService) env),
      NewTarget = NewTarget (specEnv [] [] PauseWaitActionProceed l
          :: (TargetOptions, TargetOptions marshalledService) env),
      Wait = Wait (specEnv [] [] PauseWaitActionProceed l
          :: (TargetOptions, TargetOptions marshalledService) env),
      json_Marshal = (\<lambda>ms. Inr (enc_marshalledService ms)),
      json_Unmarshal = (\<lambda>d. dec_marshalledService (Some d)),
      library = l\<rparr>"

text \<open>Marshalling a service and unmarshalling the result into a receiver.\<close>

definition save_and_restore :: "('to, 'd) env \<Rightarrow> 'to Service \<Rightarrow> 'to Service
    \<Rightarrow> ('to Service \<times> error option) option" where
  "save_and_restore e s0 s =
     (case MarshalJSON e s of
        Inr (Inr data) \<Rightarrow> Some (UnmarshalJSON e s0 data)
      | _ \<Rightarrow> None)"

text \<open>The strings of a service and its target that go into the document.\<close>

definition strings_valid :: "TargetOptions Service \<Rightarrow> TargetOptions Target \<Rightarrow> bool" where
  "strings_valid s t =
     (valid_utf8 (name s) \<and> valid_utf8 (host s)
      \<and> valid_utf8 (TLSHostname (options s)) \<and> valid_utf8 (ACMEDirectory (options s))
      \<and> valid_utf8 (ACMECachePath (options s)) \<and> list_all valid_utf8 (LogHeaders (options s))
      \<and> valid_utf8 (t_address t) \<and> valid_utf8 (Path (HealthCheckConfig (t_options t))))"

text \<open>A service with target options to save.\<close>

definition savedTarget :: "TargetOptions Target" where
  "savedTarget =
     \<lparr>t_address = ''upstream:3000'',
      t_options = \<lparr>HealthCheckConfig = \<lparr>Path = ''/up'', Interval = 1000000000,
                                          Timeout = 5000000000\<rparr>,
                   DeployTimeout = 30000000000, MaxResponseMemoryBufferSize = 1048576,
                   MaxResponseBodySize = 1073741824, TargetTimeout = 10000000000\<rparr>,
      t_state = TargetStateHealthy, t_inflight = 2\<rparr>"

definition savedService :: "TargetOptions Service" where
  "savedService =
     \<lparr>name = ''myapp'', host = ''app.example.com'',
      options = \<lparr>TLSHostname = [], ACMEDirectory = [], ACMECachePath = [],
                 LogHeaders = [''X-Version'']\<rparr>,
      active = Some savedTarget, pauseControl = \<lparr>pc_state = PauseStatePaused\<rparr>,
      certManager = None\<rparr>"

text \<open>A service, a request, a writer and a store to run the definitions on.\<close>

definition demoTarget :: "unit Target" where
  "demoTarget = \<lparr>t_address = ''upstream:3000'', t_options = (),
                  t_state = TargetStateHealthy, t_inflight = 0\<rparr>"

definition demoService :: "unit Service" where
  "demoService =
     \<lparr>name = ''myapp'', host = ''app.example.com'',
      options = \<lparr>TLSHostname = [], ACMEDirectory = [], ACMECachePath = [],
                 LogHeaders = [''X-Version'']\<rparr>,
      active = Some demoTarget, pauseControl = NewPauseControl, certManager = None\<rparr>"

definition demoRequest :: Request where
  "demoRequest =
     \<lparr>r_Method = ''GET'', r_Host = ''app.example.com:8080'', r_TLS = False,
      r_URLPath = ''/somepath'', r_RequestURI = ''/somepath?q=ok'', r_UserAgent = ''Robot/1'',
      r_ctxService = None, r_ctxHeaders = None, r_ctxTarget = None\<rparr>"

definition demoStore :: Store where
  "demoStore = \<lparr>stringCells = (\<lambda>a. []), stringsCells = (\<lambda>a. [])\<rparr>"

definition demoWriter :: ResponseWriter where
  "demoWriter = \<lparr>calls = [], isHijacker = False, hijackResult = None\<rparr>"

definition demoEnv :: "(unit, unit marshalledService) env" where
  "demoEnv = specEnv ''/up'' ''prober'' PauseWaitActionTimedOut plainLib"

section \<open>Properties of the response buffer middleware\<close>

lemma status_sent_append:
  "status_sent (xs @ ys) = (case status_sent xs of NothingSent \<Rightarrow> status_sent ys | r \<Rightarrow> r)"
  by (induction xs rule: status_sent.induct) (auto split: option.splits)

lemma handler_step_wire:
  assumes "hijacked (fst st) \<or> status_sent (calls (ResponseWriter (fst st))) = NothingSent"
  shows "hijacked (fst (handler_step ops st c))
       \<or> status_sent (calls (ResponseWriter (fst (handler_step ops st c)))) = NothingSent"
proof (cases st)
  case (Pair w seen)
  with assms show ?thesis
    by (cases c)
       (auto simp: Header_Set_def WriteHeader_def Write_def Hijack_def rw_do_def
                   status_sent_append split: prod.splits if_splits)
qed

lemma foldl_handler_step_wire:
  "hijacked (fst st) \<or> status_sent (calls (ResponseWriter (fst st))) = NothingSent \<Longrightarrow>
   hijacked (fst (foldl (handler_step ops) st cs))
   \<or> status_sent (calls (ResponseWriter (fst (foldl (handler_step ops) st cs)))) = NothingSent"
proof (induction cs arbitrary: st)
  case Nil
  then show ?case by simp
next
  case (Cons c cs)
  from Cons.prems have "hijacked (fst (handler_step ops st c))
       \<or> status_sent (calls (ResponseWriter (fst (handler_step ops st c)))) = NothingSent"
    by (rule handler_step_wire)
  then show ?case using Cons.IH by simp
qed

lemma run_handler_wire:
  "status_sent (calls (ResponseWriter w)) = NothingSent \<Longrightarrow>
   \<not> hijacked (fst (run_handler ops cs w)) \<Longrightarrow>
   status_sent (calls (ResponseWriter (fst (run_handler ops cs w)))) = NothingSent"
  unfolding run_handler_def using foldl_handler_step_wire [of "(w, [])" ops cs] by simp

text \<open>
  C1.  When the buffer's \<^verbatim>\<open>Write\<close> reports the maximum-size-exceeded error,
  \<^verbatim>\<open>bufferedResponseWriter.Write\<close> returns \<open>(len(data), nil)\<close>, whatever count the
  buffer returned.
\<close>

theorem Write_overflow_full_length_no_error:
  assumes "snd (snd (Buffer_Write ops (buffer w) data)) = Some ErrMaximumSizeExceeded"
  shows "snd (Write ops w data) = (int (length data), None)"
  using assms by (auto simp: Write_def split: prod.splits)

theorem Write_overflow_full_length_no_error_witness:
  "snd (snd (Buffer_Write specBuffer
        (buffer \<lparr>ResponseWriter = \<lparr>calls = [], isHijacker = False, hijackResult = None\<rparr>,
                 statusCode = 200,
                 buffer = \<lparr>bufMaxBytes = 4, bufMaxMemBytes = 2, bufContent = ''abc'',
                           bufOverflowed = False\<rparr>,
                 hijacked = False\<rparr>) ''defgh'')) = Some ErrMaximumSizeExceeded
   \<and> snd (Write specBuffer
        \<lparr>ResponseWriter = \<lparr>calls = [], isHijacker = False, hijackResult = None\<rparr>,
         statusCode = 200,
         buffer = \<lparr>bufMaxBytes = 4, bufMaxMemBytes = 2, bufContent = ''abc'',
                   bufOverflowed = False\<rparr>,
         hijacked = False\<rparr> ''defgh'') = (5, None)"
proof -
  have h: "snd (snd (Buffer_Write specBuffer
        (buffer \<lparr>ResponseWriter = \<lparr>calls = [], isHijacker = False, hijackResult = None\<rparr>,
                 statusCode = 200,
                 buffer = \<lparr>bufMaxBytes = 4, bufMaxMemBytes = 2, bufContent = ''abc'',
                           bufOverflowed = False\<rparr>,
                 hijacked = False\<rparr>) ''defgh'')) = Some ErrMaximumSizeExceeded"
    by (simp add: specBuffer_def specBuffer_Write_def)
  from Write_overflow_full_length_no_error [OF h] h show ?thesis by simp
qed

lemma Send_overflowed:
  "Buffer_Overflowed ops (buffer w) \<Longrightarrow> Send ops w = (w, Some ErrMaximumSizeExceeded)"
  by (simp add: Send_def)

lemma run_handler_observes_no_overflow_error:
  "(n, err) \<in> set (snd (foldl (handler_step ops) st cs)) \<Longrightarrow>
   (n, err) \<in> set (snd st) \<or> err \<noteq> Some ErrMaximumSizeExceeded"
proof (induction cs arbitrary: st)
  case Nil
  then show ?case by simp
next
  case (Cons c cs)
  obtain w seen where st: "st = (w, seen)" by (cases st)
  from Cons.IH [OF Cons.prems [simplified]]
  have "(n, err) \<in> set (snd (handler_step ops st c)) \<or> err \<noteq> Some ErrMaximumSizeExceeded" .
  then show ?case
    unfolding st by (cases c) (auto simp: Write_def split: prod.splits if_splits)
qed

text \<open>
  With the buffer of the spec, a run that writes more than \<open>maxBytes\<close> in total
  leaves the buffer overflowed.
\<close>

lemma specBuffer_overflow_inv:
  assumes "int (length (bufContent (buffer (fst st)))) \<le> bufMaxBytes (buffer (fst st))"
    and "bufOverflowed (buffer (fst st))
      \<or> int (length (bufContent (buffer (fst st)))) + int (total_written cs)
          > bufMaxBytes (buffer (fst st))"
  shows "bufOverflowed (buffer (fst (foldl (handler_step specBuffer) st cs)))"
  using assms
proof (induction cs arbitrary: st)
  case Nil
  then show ?case by simp
next
  case (Cons c cs)
  obtain w seen where st: "st = (w, seen)" by (cases st)
  have le: "int (length (bufContent (buffer (fst (handler_step specBuffer st c)))))
      \<le> bufMaxBytes (buffer (fst (handler_step specBuffer st c)))"
    using Cons.prems unfolding st
    by (cases c)
       (auto simp: Header_Set_def WriteHeader_def Write_def Hijack_def specBuffer_def
                   specBuffer_Write_def split: prod.splits)
  have "bufOverflowed (buffer (fst (handler_step specBuffer st c)))
      \<or> int (length (bufContent (buffer (fst (handler_step specBuffer st c)))))
          + int (total_written cs)
          > bufMaxBytes (buffer (fst (handler_step specBuffer st c)))"
    using Cons.prems unfolding st
    by (cases c)
       (auto simp: Header_Set_def WriteHeader_def Write_def Hijack_def specBuffer_def
                   specBuffer_Write_def split: prod.splits)
  from Cons.IH [OF le this] show ?case by simp
qed

lemma specBuffer_overflows_beyond_limit:
  assumes "0 \<le> maxB" and "int (total_written cs) > maxB"
  shows "Buffer_Overflowed specBuffer (buffer (fst (run_handler specBuffer cs
           \<lparr>ResponseWriter = w, statusCode = StatusOK,
            buffer = NewBufferedWriteCloser specBuffer maxB maxMem, hijacked = False\<rparr>)))"
proof -
  have "bufOverflowed (buffer (fst (foldl (handler_step specBuffer)
          (\<lparr>ResponseWriter = w, statusCode = StatusOK,
            buffer = NewBufferedWriteCloser specBuffer maxB maxMem, hijacked = False\<rparr>, []) cs)))"
    using assms by (intro specBuffer_overflow_inv) (simp_all add: specBuffer_def)
  then show ?thesis by (simp add: run_handler_def specBuffer_def)
qed

text \<open>
  C2, as stated, fails: a handler hijacks the connection and then writes more
  than the limit through the writer.  The buffer has overflowed, the one INFO
  record is logged and \<^verbatim>\<open>http.Error\<close> is called, but the connection is no
  longer the server's and the client receives no status from it.
\<close>

theorem ServeHTTP_overflow_after_hijack_counterexample:
  "Buffer_Overflowed specBuffer (buffer (fst (run_handler specBuffer
       [CallHijack, CallWrite ''abcdef'']
       \<lparr>ResponseWriter = \<lparr>calls = [], isHijacker = True, hijackResult = None\<rparr>,
        statusCode = StatusOK,
        buffer = NewBufferedWriteCloser specBuffer 4 2,
        hijacked = False\<rparr>)))
   \<and> ResponseBufferMiddleware_ServeHTTP specBuffer
        \<lparr>maxMemBytes = 2, maxBytes = 4, next = [CallHijack, CallWrite ''abcdef'']\<rparr>
        \<lparr>calls = [], isHijacker = True, hijackResult = None\<rparr> ''/cable''
     = \<lparr>writer = \<lparr>calls = [HijackCall, HttpError ''Internal Server Error'' 500],
                    isHijacker = True, hijackResult = None\<rparr>,
        logs = [(INFO, ''Response exceeded max response limit'', [(''path'', Str ''/cable'')])],
        writeResults = [(6, None)]\<rparr>
   \<and> status_sent [HijackCall, HttpError ''Internal Server Error'' 500] = TakenOver"
  by (simp add: ResponseBufferMiddleware_ServeHTTP_def run_handler_def specBuffer_def
                specBuffer_Write_def Write_def Hijack_def rw_do_def Send_def StatusOK_def
                StatusInternalServerError_def)

text \<open>
  C2, amended.  When the handler's writes have left the buffer overflowed and the
  handler has not hijacked the connection, \<^verbatim>\<open>Send\<close> returns the overflow error,
  the middleware answers through \<^verbatim>\<open>http.Error(w, "Internal Server Error", 500)\<close>,
  the client of a connection on which nothing had been sent receives 500, and
  the log holds exactly one record, at INFO: "Response exceeded max response
  limit".
\<close>

theorem ServeHTTP_overflow_500_one_info_line:
  assumes over: "Buffer_Overflowed ops (buffer (fst (run_handler ops (next h)
            \<lparr>ResponseWriter = w, statusCode = StatusOK,
             buffer = NewBufferedWriteCloser ops (maxBytes h) (maxMemBytes h),
             hijacked = False\<rparr>)))"
    and nohijack: "\<not> hijacked (fst (run_handler ops (next h)
            \<lparr>ResponseWriter = w, statusCode = StatusOK,
             buffer = NewBufferedWriteCloser ops (maxBytes h) (maxMemBytes h),
             hijacked = False\<rparr>))"
  shows "snd (Send ops (fst (run_handler ops (next h)
            \<lparr>ResponseWriter = w, statusCode = StatusOK,
             buffer = NewBufferedWriteCloser ops (maxBytes h) (maxMemBytes h),
             hijacked = False\<rparr>))) = Some ErrMaximumSizeExceeded
       \<and> logs (ResponseBufferMiddleware_ServeHTTP ops h w p)
           = [(INFO, ''Response exceeded max response limit'', [(''path'', Str p)])]
       \<and> last (calls (writer (ResponseBufferMiddleware_ServeHTTP ops h w p)))
           = HttpError ''Internal Server Error'' 500
       \<and> (status_sent (calls w) = NothingSent \<longrightarrow>
            status_sent (calls (writer (ResponseBufferMiddleware_ServeHTTP ops h w p)))
              = Status 500)"
proof -
  define w0 where "w0 = \<lparr>ResponseWriter = w, statusCode = StatusOK,
             buffer = NewBufferedWriteCloser ops (maxBytes h) (maxMemBytes h),
             hijacked = False\<rparr>"
  obtain rw1 seen where run: "run_handler ops (next h) w0 = (rw1, seen)"
    by (cases "run_handler ops (next h) w0")
  from over have ov: "Buffer_Overflowed ops (buffer rw1)"
    unfolding w0_def [symmetric] run by simp
  from nohijack have nh: "\<not> hijacked (fst (run_handler ops (next h) w0))"
    unfolding w0_def [symmetric] .
  have send: "Send ops rw1 = (rw1, Some ErrMaximumSizeExceeded)"
    using ov by (rule Send_overflowed)
  have res: "ResponseBufferMiddleware_ServeHTTP ops h w p =
      \<lparr>writer = rw_do (HttpError ''Internal Server Error'' StatusInternalServerError)
                   (ResponseWriter rw1),
       logs = [(INFO, ''Response exceeded max response limit'', [(''path'', Str p)])],
       writeResults = seen\<rparr>"
    using run [unfolded w0_def] send
    by (simp add: ResponseBufferMiddleware_ServeHTTP_def Let_def)
  have none: "status_sent (calls (ResponseWriter rw1)) = NothingSent"
    if "status_sent (calls w) = NothingSent"
  proof -
    from that have "status_sent (calls (ResponseWriter w0)) = NothingSent"
      by (simp add: w0_def)
    from run_handler_wire [OF this nh] show ?thesis
      by (simp add: run)
  qed
  show ?thesis
    using run [unfolded w0_def] send none
    by (simp add: res rw_do_def status_sent_append StatusInternalServerError_def)
qed

theorem ServeHTTP_overflow_500_one_info_line_witness:
  "Buffer_Overflowed specBuffer (buffer (fst (run_handler specBuffer
       (next \<lparr>maxMemBytes = 2, maxBytes = 4,
               next = [CallWriteHeader 201, CallWrite ''abc'', CallWrite ''defgh'']\<rparr>)
       \<lparr>ResponseWriter = \<lparr>calls = [], isHijacker = False, hijackResult = None\<rparr>,
        statusCode = StatusOK,
        buffer = NewBufferedWriteCloser specBuffer
           (maxBytes \<lparr>maxMemBytes = 2, maxBytes = 4,
               next = [CallWriteHeader 201, CallWrite ''abc'', CallWrite ''defgh'']\<rparr>)
           (maxMemBytes \<lparr>maxMemBytes = 2, maxBytes = 4,
               next = [CallWriteHeader 201, CallWrite ''abc'', CallWrite ''defgh'']\<rparr>),
        hijacked = False\<rparr>)))
   \<and> \<not> hijacked (fst (run_handler specBuffer
       (next \<lparr>maxMemBytes = 2, maxBytes = 4,
               next = [CallWriteHeader 201, CallWrite ''abc'', CallWrite ''defgh'']\<rparr>)
       \<lparr>ResponseWriter = \<lparr>calls = [], isHijacker = False, hijackResult = None\<rparr>,
        statusCode = StatusOK,
        buffer = NewBufferedWriteCloser specBuffer
           (maxBytes \<lparr>maxMemBytes = 2, maxBytes = 4,
               next = [CallWriteHeader 201, CallWrite ''abc'', CallWrite ''defgh'']\<rparr>)
           (maxMemBytes \<lparr>maxMemBytes = 2, maxBytes = 4,
               next = [CallWriteHeader 201, CallWrite ''abc'', CallWrite ''defgh'']\<rparr>),
        hijacked = False\<rparr>))
   \<and> status_sent (calls \<lparr>calls = [], isHijacker = False, hijackResult = None\<rparr>) = NothingSent
   \<and> logs (ResponseBufferMiddleware_ServeHTTP specBuffer
         \<lparr>maxMemBytes = 2, maxBytes = 4,
          next = [CallWriteHeader 201, CallWrite ''abc'', CallWrite ''defgh'']\<rparr>
         \<lparr>calls = [], isHijacker = False, hijackResult = None\<rparr> ''/big'')
       = [(INFO, ''Response exceeded max response limit'', [(''path'', Str ''/big'')])]
   \<and> status_sent (calls (writer (ResponseBufferMiddleware_ServeHTTP specBuffer
         \<lparr>maxMemBytes = 2, maxBytes = 4,
          next = [CallWriteHeader 201, CallWrite ''abc'', CallWrite ''defgh'']\<rparr>
         \<lparr>calls = [], isHijacker = False, hijackResult = None\<rparr> ''/big''))) = Status 500"
proof -
  have over: "Buffer_Overflowed specBuffer (buffer (fst (run_handler specBuffer
       (next \<lparr>maxMemBytes = 2, maxBytes = 4,
               next = [CallWriteHeader 201, CallWrite ''abc'', CallWrite ''defgh'']\<rparr>)
       \<lparr>ResponseWriter = \<lparr>calls = [], isHijacker = False, hijackResult = None\<rparr>,
        statusCode = StatusOK,
        buffer = NewBufferedWriteCloser specBuffer
           (maxBytes \<lparr>maxMemBytes = 2, maxBytes = 4,
               next = [CallWriteHeader 201, CallWrite ''abc'', CallWrite ''defgh'']\<rparr>)
           (maxMemBytes \<lparr>maxMemBytes = 2, maxBytes = 4,
               next = [CallWriteHeader 201, CallWrite ''abc'', CallWrite ''defgh'']\<rparr>),
        hijacked = False\<rparr>)))"
    by (simp add: run_handler_def specBuffer_def specBuffer_Write_def Write_def WriteHeader_def)
  have nohijack: "\<not> hijacked (fst (run_handler specBuffer
       (next \<lparr>maxMemBytes = 2, maxBytes = 4,
               next = [CallWriteHeader 201, CallWrite ''abc'', CallWrite ''defgh'']\<rparr>)
       \<lparr>ResponseWriter = \<lparr>calls = [], isHijacker = False, hijackResult = None\<rparr>,
        statusCode = StatusOK,
        buffer = NewBufferedWriteCloser specBuffer
           (maxBytes \<lparr>maxMemBytes = 2, maxBytes = 4,
               next = [CallWriteHeader 201, CallWrite ''abc'', CallWrite ''defgh'']\<rparr>)
           (maxMemBytes \<lparr>maxMemBytes = 2, maxBytes = 4,
               next = [CallWriteHeader 201, CallWrite ''abc'', CallWrite ''defgh'']\<rparr>),
        hijacked = False\<rparr>))"
    by (simp add: run_handler_def specBuffer_def specBuffer_Write_def Write_def WriteHeader_def)
  have fresh: "status_sent (calls \<lparr>calls = [], isHijacker = False, hijackResult = None\<rparr>)
      = NothingSent"
    by simp
  from ServeHTTP_overflow_500_one_info_line [OF over nohijack, of "''/big''"] over nohijack fresh
  show ?thesis by simp
qed

lemma Hijack_sets_hijacked:
  "isHijacker (ResponseWriter w) \<Longrightarrow> hijacked (fst (Hijack w))"
  by (simp add: Hijack_def)

lemma handler_step_keeps_hijacked:
  "hijacked (fst st) \<Longrightarrow> hijacked (fst (handler_step ops st c))"
  by (cases st; cases c)
     (auto simp: Header_Set_def WriteHeader_def Write_def Hijack_def split: prod.splits)

text \<open>
  C3, as stated, fails: a handler hijacks the connection and then writes more
  than the limit through the writer; \<^verbatim>\<open>Send\<close> tests \<^verbatim>\<open>Overflowed\<close> before
  \<^verbatim>\<open>hijacked\<close> and returns the overflow error.
\<close>

theorem Send_hijacked_overflowed_counterexample:
  "hijacked (fst (run_handler specBuffer [CallHijack, CallWrite ''abcdef'']
       \<lparr>ResponseWriter = \<lparr>calls = [], isHijacker = True, hijackResult = None\<rparr>,
        statusCode = 200,
        buffer = NewBufferedWriteCloser specBuffer 4 2,
        hijacked = False\<rparr>))
   \<and> snd (Send specBuffer (fst (run_handler specBuffer [CallHijack, CallWrite ''abcdef'']
       \<lparr>ResponseWriter = \<lparr>calls = [], isHijacker = True, hijackResult = None\<rparr>,
        statusCode = 200,
        buffer = NewBufferedWriteCloser specBuffer 4 2,
        hijacked = False\<rparr>))) = Some ErrMaximumSizeExceeded"
  by (simp add: run_handler_def specBuffer_def specBuffer_Write_def Write_def Hijack_def
                rw_do_def Send_def)

text \<open>
  C3, amended.  On a hijacked writer \<^verbatim>\<open>Send\<close> never touches the underlying
  \<^verbatim>\<open>ResponseWriter\<close> (the writer is returned as it was), and it returns no error
  exactly when the buffer has not overflowed; on an overflowed buffer it returns
  the overflow error.
\<close>

theorem Send_hijacked_writes_nothing:
  assumes "hijacked w"
  shows "fst (Send ops w) = w
       \<and> snd (Send ops w)
           = (if Buffer_Overflowed ops (buffer w) then Some ErrMaximumSizeExceeded else None)"
  using assms by (simp add: Send_def)

theorem Send_hijacked_writes_nothing_witness:
  "hijacked (fst (Hijack
       \<lparr>ResponseWriter = \<lparr>calls = [HeaderSet ''Upgrade'' ''websocket''], isHijacker = True,
                          hijackResult = None\<rparr>,
        statusCode = 101,
        buffer = \<lparr>bufMaxBytes = 4, bufMaxMemBytes = 2, bufContent = ''ab'',
                  bufOverflowed = False\<rparr>,
        hijacked = False\<rparr>))
   \<and> Send specBuffer (fst (Hijack
       \<lparr>ResponseWriter = \<lparr>calls = [HeaderSet ''Upgrade'' ''websocket''], isHijacker = True,
                          hijackResult = None\<rparr>,
        statusCode = 101,
        buffer = \<lparr>bufMaxBytes = 4, bufMaxMemBytes = 2, bufContent = ''ab'',
                  bufOverflowed = False\<rparr>,
        hijacked = False\<rparr>))
     = (\<lparr>ResponseWriter = \<lparr>calls = [HeaderSet ''Upgrade'' ''websocket'', HijackCall],
                          isHijacker = True, hijackResult = None\<rparr>,
        statusCode = 101,
        buffer = \<lparr>bufMaxBytes = 4, bufMaxMemBytes = 2, bufContent = ''ab'',
                  bufOverflowed = False\<rparr>,
        hijacked = True\<rparr>, None)"
proof -
  have h: "hijacked (fst (Hijack
       \<lparr>ResponseWriter = \<lparr>calls = [HeaderSet ''Upgrade'' ''websocket''], isHijacker = True,
                          hijackResult = None\<rparr>,
        statusCode = 101,
        buffer = \<lparr>bufMaxBytes = 4, bufMaxMemBytes = 2, bufContent = ''ab'',
                  bufOverflowed = False\<rparr>,
        hijacked = False\<rparr>))"
    by (simp add: Hijack_def)
  from Send_hijacked_writes_nothing [OF h, of specBuffer] h
  show ?thesis
    by (simp add: prod_eq_iff Hijack_def rw_do_def specBuffer_def)
qed

section \<open>Properties of the service\<close>

lemma record_slots_ok:
  assumes "r_ctxService r \<noteq> Some (StringPtr None)"
    and "r_ctxHeaders r \<noteq> Some (StringsPtr None)"
  shows "\<exists>st'. record_slots s r st = Inr st'"
  using assms
  by (auto simp: record_slots_def recordServiceNameForRequest_def recordHeadersForRequest_def
           split: option.splits ctx_value.splits)

lemma ServeHTTP_after_recording:
  assumes "record_slots s r st = Inr st2"
  shows "Service_ServeHTTP e s w r st =
     (if RequireTLS (options s) \<and> \<not> r_TLS r
      then Inr \<lparr>h_writer = redirectToHTTPS s w r, h_logs = [], h_upstream = [], h_store = st2\<rparr>
      else
        (case handlePausedAndStoppedRequests e s w r of
           (w1, lg, stop) \<Rightarrow>
             if stop
             then Inr \<lparr>h_writer = w1, h_logs = lg, h_upstream = [], h_store = st2\<rparr>
             else
               (case ClaimTarget e s r of
                  (target, Inl err) \<Rightarrow>
                    Inr \<lparr>h_writer = rw_do (HttpError ''Service not available''
                                              StatusServiceUnavailable) w1,
                         h_logs = lg, h_upstream = [], h_store = st2\<rparr>
                | (target, Inr req) \<Rightarrow>
                    Inr \<lparr>h_writer = w1, h_logs = lg, h_upstream = [(target, req)],
                         h_store = st2\<rparr>)))"
  using assms
  by (auto simp: Service_ServeHTTP_def record_slots_def split: sum.splits)

text \<open>
  What \<^verbatim>\<open>net.SplitHostPort\<close> makes of the usual shapes of a \<^verbatim>\<open>Host\<close> header: no
  colon, no port found; \<^verbatim>\<open>host:port\<close> gives the host; \<^verbatim>\<open>[host]:port\<close> gives the
  host without its brackets.
\<close>

lemma IndexByte_None_iff: "IndexByte xs c = None \<longleftrightarrow> c \<notin> set xs"
  by (induction xs) auto

lemma LastIndexByte_None_iff: "LastIndexByte xs c = None \<longleftrightarrow> c \<notin> set xs"
  by (induction xs) (auto split: option.splits)

lemma LastIndexByte_append:
  "c \<notin> set p \<Longrightarrow> LastIndexByte (h @ c # p) c = Some (length h)"
  by (induction h) (auto simp: LastIndexByte_None_iff split: option.splits)


lemma SplitHostPort_host_port:
  assumes "set h \<inter> {CHR '':'', CHR ''['', CHR '']''} = {}"
    and "set p \<inter> {CHR '':'', CHR ''['', CHR '']''} = {}"
  shows "SplitHostPort (h @ CHR '':'' # p) = Inr (h, p)"
proof -
  have l: "LastIndexByte (h @ CHR '':'' # p) CHR '':'' = Some (length h)"
    using assms by (intro LastIndexByte_append) auto
  have hd: "(h @ CHR '':'' # p) ! 0 \<noteq> CHR ''[''"
    using assms by (cases h) auto
  have i1: "IndexByte h CHR '':'' = None"
    using assms by (simp add: IndexByte_None_iff)
  have i2: "IndexByte (h @ CHR '':'' # p) CHR ''['' = None"
    using assms by (simp add: IndexByte_None_iff)
  have i3: "IndexByte (h @ CHR '':'' # p) CHR '']'' = None"
    using assms by (simp add: IndexByte_None_iff)
  show ?thesis
    using hd by (simp add: SplitHostPort_def l i1 i2 i3 Let_def)
qed

lemma SplitHostPort_bracketed:
  assumes "set h \<inter> {CHR ''['', CHR '']''} = {}"
    and "set p \<inter> {CHR '':'', CHR ''['', CHR '']''} = {}"
  shows "SplitHostPort (CHR ''['' # h @ CHR '']'' # CHR '':'' # p) = Inr (h, p)"
proof -
  have l: "LastIndexByte (CHR ''['' # h @ CHR '']'' # CHR '':'' # p) CHR '':'' = Some (length h + 2)"
    using assms LastIndexByte_append [of "CHR '':''" p "CHR ''['' # h @ [CHR '']'']"] by auto
  have e: "IndexByte (CHR ''['' # h @ CHR '']'' # CHR '':'' # p) CHR '']'' = Some (length h + 1)"
    using assms by (induction h) auto
  have i2: "IndexByte (h @ CHR '']'' # CHR '':'' # p) CHR ''['' = None"
    using assms by (simp add: IndexByte_None_iff)
  have i3: "IndexByte (CHR '':'' # p) CHR '']'' = None"
    using assms by (simp add: IndexByte_None_iff)
  show ?thesis
    by (simp add: SplitHostPort_def l e i2 i3 Let_def del: IndexByte.simps LastIndexByte.simps)
qed













text \<open>
  C10.  \<^verbatim>\<open>UpdateOptions\<close> replaces the options and the certificate manager
  (built from the new options) and nothing else: name, host, active target and
  pause control are those of the service before the call.
\<close>

theorem UpdateOptions_frame:
  "UpdateOptions l s opts =
     s\<lparr>options := opts, certManager := createCertManager l (s\<lparr>options := opts\<rparr>)\<rparr>
   \<and> name (UpdateOptions l s opts) = name s
   \<and> host (UpdateOptions l s opts) = host s
   \<and> active (UpdateOptions l s opts) = active s
   \<and> pauseControl (UpdateOptions l s opts) = pauseControl s
   \<and> State (pauseControl (UpdateOptions l s opts)) = State (pauseControl s)
   \<and> options (UpdateOptions l s opts) = opts"
  by (simp add: UpdateOptions_def Let_def)

text \<open>
  C9.  When the value under the \<^verbatim>\<open>service\<close> key (or the \<^verbatim>\<open>headers\<close> key) is
  absent or is not a pointer of the expected type, the recording step returns
  without a panic and leaves the store as it was, and \<^verbatim>\<open>ServeHTTP\<close> goes on to
  its result; when the key holds a pointer to a cell, the cell receives the
  service's name (or its \<^verbatim>\<open>LogHeaders\<close>).
\<close>

theorem recording_skips_missing_slots_and_fills_present_ones:
  "(\<not> is_string_ptr (r_ctxService r) \<longrightarrow> recordServiceNameForRequest s r st = Inr st)
   \<and> (\<not> is_strings_ptr (r_ctxHeaders r) \<longrightarrow> recordHeadersForRequest s r st = Inr st)
   \<and> (\<not> is_string_ptr (r_ctxService r) \<and> \<not> is_strings_ptr (r_ctxHeaders r) \<longrightarrow>
        (\<exists>res. Service_ServeHTTP e s w r st = Inr res \<and> h_store res = st))
   \<and> (r_ctxService r = Some (StringPtr (Some a)) \<longrightarrow>
        recordServiceNameForRequest s r st
          = Inr (st\<lparr>stringCells := (stringCells st)(a := name s)\<rparr>))
   \<and> (r_ctxHeaders r = Some (StringsPtr (Some b)) \<longrightarrow>
        recordHeadersForRequest s r st
          = Inr (st\<lparr>stringsCells := (stringsCells st)(b := LogHeaders (options s))\<rparr>))
   \<and> (r_ctxService r = Some (StringPtr (Some a)) \<and> r_ctxHeaders r = Some (StringsPtr (Some b)) \<longrightarrow>
        (\<exists>res. Service_ServeHTTP e s w r st = Inr res
           \<and> stringCells (h_store res) a = name s
           \<and> stringsCells (h_store res) b = LogHeaders (options s)))"
proof -
  have 1: "\<not> is_string_ptr (r_ctxService r) \<Longrightarrow> recordServiceNameForRequest s r st = Inr st"
    by (auto simp: is_string_ptr_def recordServiceNameForRequest_def
             split: option.splits ctx_value.splits)
  have 2: "\<not> is_strings_ptr (r_ctxHeaders r) \<Longrightarrow> recordHeadersForRequest s r st = Inr st"
    by (auto simp: is_strings_ptr_def recordHeadersForRequest_def
             split: option.splits ctx_value.splits)
  have 3: "\<exists>res. Service_ServeHTTP e s w r st = Inr res \<and> h_store res = st"
    if "\<not> is_string_ptr (r_ctxService r)" "\<not> is_strings_ptr (r_ctxHeaders r)"
  proof -
    from that have "record_slots s r st = Inr st"
      by (simp add: record_slots_def 1 2)
    from ServeHTTP_after_recording [OF this, of e w] show ?thesis
      by (auto split: prod.splits sum.splits)
  qed
  have 4: "recordServiceNameForRequest s r st
          = Inr (st\<lparr>stringCells := (stringCells st)(a := name s)\<rparr>)"
    if "r_ctxService r = Some (StringPtr (Some a))"
    using that by (simp add: recordServiceNameForRequest_def)
  have 5: "recordHeadersForRequest s r st'
          = Inr (st'\<lparr>stringsCells := (stringsCells st')(b := LogHeaders (options s))\<rparr>)"
    if "r_ctxHeaders r = Some (StringsPtr (Some b))" for st'
    using that by (simp add: recordHeadersForRequest_def)
  have 6: "\<exists>res. Service_ServeHTTP e s w r st = Inr res
           \<and> stringCells (h_store res) a = name s
           \<and> stringsCells (h_store res) b = LogHeaders (options s)"
    if "r_ctxService r = Some (StringPtr (Some a))" "r_ctxHeaders r = Some (StringsPtr (Some b))"
  proof -
    from that have "record_slots s r st
        = Inr (st\<lparr>stringCells := (stringCells st)(a := name s),
                  stringsCells := (stringsCells st)(b := LogHeaders (options s))\<rparr>)"
      by (simp add: record_slots_def 4 5)
    from ServeHTTP_after_recording [OF this, of e w] show ?thesis
      by (auto split: prod.splits sum.splits)
  qed
  from 1 2 3 4 5 [of st] 6 show ?thesis by blast
qed

theorem recording_skips_missing_slots_and_fills_present_ones_witness:
  "\<not> is_string_ptr (r_ctxService (demoRequest\<lparr>r_ctxHeaders := Some OtherValue\<rparr>))
   \<and> \<not> is_strings_ptr (r_ctxHeaders (demoRequest\<lparr>r_ctxHeaders := Some OtherValue\<rparr>))
   \<and> recordServiceNameForRequest demoService (demoRequest\<lparr>r_ctxHeaders := Some OtherValue\<rparr>)
        demoStore = Inr demoStore
   \<and> recordHeadersForRequest demoService (demoRequest\<lparr>r_ctxHeaders := Some OtherValue\<rparr>)
        demoStore = Inr demoStore
   \<and> (\<exists>res. Service_ServeHTTP demoEnv demoService demoWriter
          (demoRequest\<lparr>r_ctxHeaders := Some OtherValue\<rparr>) demoStore = Inr res
        \<and> h_store res = demoStore)
   \<and> r_ctxService (demoRequest\<lparr>r_ctxService := Some (StringPtr (Some 0)),
                                r_ctxHeaders := Some (StringsPtr (Some 1))\<rparr>)
        = Some (StringPtr (Some 0))
   \<and> r_ctxHeaders (demoRequest\<lparr>r_ctxService := Some (StringPtr (Some 0)),
                                r_ctxHeaders := Some (StringsPtr (Some 1))\<rparr>)
        = Some (StringsPtr (Some 1))
   \<and> (\<exists>res. Service_ServeHTTP demoEnv demoService demoWriter
          (demoRequest\<lparr>r_ctxService := Some (StringPtr (Some 0)),
                        r_ctxHeaders := Some (StringsPtr (Some 1))\<rparr>) demoStore = Inr res
        \<and> stringCells (h_store res) 0 = ''myapp''
        \<and> stringsCells (h_store res) 1 = [''X-Version''])"
proof -
  have a1: "\<not> is_string_ptr (r_ctxService (demoRequest\<lparr>r_ctxHeaders := Some OtherValue\<rparr>))"
    by (simp add: demoRequest_def is_string_ptr_def)
  have a2: "\<not> is_strings_ptr (r_ctxHeaders (demoRequest\<lparr>r_ctxHeaders := Some OtherValue\<rparr>))"
    by (simp add: demoRequest_def is_strings_ptr_def)
  have b1: "r_ctxService (demoRequest\<lparr>r_ctxService := Some (StringPtr (Some 0)),
                                r_ctxHeaders := Some (StringsPtr (Some 1))\<rparr>)
        = Some (StringPtr (Some 0))"
    by simp
  have b2: "r_ctxHeaders (demoRequest\<lparr>r_ctxService := Some (StringPtr (Some 0)),
                                r_ctxHeaders := Some (StringsPtr (Some 1))\<rparr>)
        = Some (StringsPtr (Some 1))"
    by simp
  have n: "name demoService = ''myapp''" "LogHeaders (options demoService) = [''X-Version'']"
    by (simp_all add: demoService_def)
  note absent = recording_skips_missing_slots_and_fills_present_ones
      [of "demoRequest\<lparr>r_ctxHeaders := Some OtherValue\<rparr>" demoService demoStore
          demoEnv demoWriter 0 1]
  note present = recording_skips_missing_slots_and_fills_present_ones
      [of "demoRequest\<lparr>r_ctxService := Some (StringPtr (Some 0)),
                        r_ctxHeaders := Some (StringsPtr (Some 1))\<rparr>" demoService demoStore
          demoEnv demoWriter 0 1]
  from absent a1 a2 have c1:
    "recordServiceNameForRequest demoService (demoRequest\<lparr>r_ctxHeaders := Some OtherValue\<rparr>)
        demoStore = Inr demoStore"
    "recordHeadersForRequest demoService (demoRequest\<lparr>r_ctxHeaders := Some OtherValue\<rparr>)
        demoStore = Inr demoStore"
    "\<exists>res. Service_ServeHTTP demoEnv demoService demoWriter
          (demoRequest\<lparr>r_ctxHeaders := Some OtherValue\<rparr>) demoStore = Inr res
        \<and> h_store res = demoStore"
    by blast+
  from present b1 b2 have c2:
    "\<exists>res. Service_ServeHTTP demoEnv demoService demoWriter
          (demoRequest\<lparr>r_ctxService := Some (StringPtr (Some 0)),
                        r_ctxHeaders := Some (StringsPtr (Some 1))\<rparr>) demoStore = Inr res
        \<and> stringCells (h_store res) 0 = name demoService
        \<and> stringsCells (h_store res) 1 = LogHeaders (options demoService)"
    by blast
  from a1 a2 b1 b2 c1 c2 [unfolded n] show ?thesis by blast
qed




text \<open>
  C4.  A request that reaches the claim step (recorded, not redirected, let
  through by the pause step) and whose claim returns an error is answered with
  \<^verbatim>\<open>http.Error(w, "Service not available", 503)\<close> and does not go upstream.  The
  error is whatever \<^verbatim>\<open>StartRequest\<close> returns on the active target pointer, nil
  included.
\<close>

theorem ServeHTTP_failed_claim_503:
  assumes "record_slots s r st = Inr st2"
    and "\<not> (RequireTLS (options s) \<and> \<not> r_TLS r)"
    and "\<not> snd (snd (handlePausedAndStoppedRequests e s w r))"
    and "snd (ClaimTarget e s r) = Inl err"
  shows "Service_ServeHTTP e s w r st =
     Inr \<lparr>h_writer = w\<lparr>calls := calls w @ [HttpError ''Service not available'' 503]\<rparr>,
          h_logs = [], h_upstream = [], h_store = st2\<rparr>
     \<and> (status_sent (calls w) = NothingSent \<longrightarrow>
          status_sent (calls w @ [HttpError ''Service not available'' 503]) = Status 503)"
proof -
  from assms(3) have pass: "handlePausedAndStoppedRequests e s w r = (w, [], False)"
    by (auto simp: handlePausedAndStoppedRequests_def
             split: if_splits PauseWaitAction.splits)
  obtain target where claim: "ClaimTarget e s r = (target, Inl err)"
    using assms(4) by (cases "ClaimTarget e s r") auto
  from assms(2) have gate: "(RequireTLS (options s) \<and> \<not> r_TLS r) = False"
    by blast
  show ?thesis
    using ServeHTTP_after_recording [OF assms(1), of e w]
    by (simp add: gate pass claim rw_do_def StatusServiceUnavailable_def status_sent_append)
qed

lemma specEnv_claim_fails_without_target:
  "active s = None \<Longrightarrow>
   snd (ClaimTarget (specEnv hc ua ending l) s r) = Inl ErrTargetUnavailable"
  by (simp add: ClaimTarget_def specEnv_def)

lemma specEnv_claim_fails_when_draining:
  "active s = Some t \<Longrightarrow> t_state t = TargetStateDraining \<Longrightarrow>
   snd (ClaimTarget (specEnv hc ua ending l) s r) = Inl ErrTargetUnavailable"
  by (simp add: ClaimTarget_def specEnv_def)

theorem ServeHTTP_failed_claim_503_witness:
  "record_slots (demoService\<lparr>active := Some (demoTarget\<lparr>t_state := TargetStateDraining\<rparr>)\<rparr>)
      demoRequest demoStore = Inr demoStore
   \<and> \<not> (RequireTLS (options (demoService\<lparr>active := Some (demoTarget\<lparr>t_state := TargetStateDraining\<rparr>)\<rparr>))
        \<and> \<not> r_TLS demoRequest)
   \<and> \<not> snd (snd (handlePausedAndStoppedRequests demoEnv
        (demoService\<lparr>active := Some (demoTarget\<lparr>t_state := TargetStateDraining\<rparr>)\<rparr>)
        demoWriter demoRequest))
   \<and> snd (ClaimTarget demoEnv
        (demoService\<lparr>active := Some (demoTarget\<lparr>t_state := TargetStateDraining\<rparr>)\<rparr>)
        demoRequest) = Inl ErrTargetUnavailable
   \<and> Service_ServeHTTP demoEnv
        (demoService\<lparr>active := Some (demoTarget\<lparr>t_state := TargetStateDraining\<rparr>)\<rparr>)
        demoWriter demoRequest demoStore =
     Inr \<lparr>h_writer = \<lparr>calls = [HttpError ''Service not available'' 503],
                       isHijacker = False, hijackResult = None\<rparr>,
          h_logs = [], h_upstream = [], h_store = demoStore\<rparr>"
proof -
  let ?s = "demoService\<lparr>active := Some (demoTarget\<lparr>t_state := TargetStateDraining\<rparr>)\<rparr>"
  have a: "record_slots ?s demoRequest demoStore = Inr demoStore"
    by (simp add: record_slots_def recordServiceNameForRequest_def recordHeadersForRequest_def
                  demoRequest_def)
  have b: "\<not> (RequireTLS (options ?s) \<and> \<not> r_TLS demoRequest)"
    by (simp add: RequireTLS_def demoService_def)
  have c: "\<not> snd (snd (handlePausedAndStoppedRequests demoEnv ?s demoWriter demoRequest))"
    by (simp add: handlePausedAndStoppedRequests_def demoEnv_def specEnv_def demoService_def
                  NewPauseControl_def State_def)
  have d: "snd (ClaimTarget demoEnv ?s demoRequest) = Inl ErrTargetUnavailable"
    by (simp add: ClaimTarget_def demoEnv_def specEnv_def)
  from ServeHTTP_failed_claim_503 [OF a b c d] a b c d
  show ?thesis
    by (simp add: demoWriter_def)
qed

text \<open>
  C5, as stated, fails: the TLS test comes before the pause step.  A paused
  service that requires TLS answers a health-check request that arrives without
  TLS with the redirect (301), not with 200.
\<close>

theorem paused_probe_without_TLS_is_redirected_counterexample:
  "State (pauseControl (demoService
      \<lparr>options := (options demoService)\<lparr>TLSHostname := ''app.example.com''\<rparr>,
       pauseControl := \<lparr>pc_state = PauseStatePaused\<rparr>\<rparr>)) \<noteq> PauseStateRunning
   \<and> IsHealthCheckRequest demoEnv
        (Service_ActiveTarget (demoService
           \<lparr>options := (options demoService)\<lparr>TLSHostname := ''app.example.com''\<rparr>,
            pauseControl := \<lparr>pc_state = PauseStatePaused\<rparr>\<rparr>))
        (demoRequest\<lparr>r_URLPath := ''/up'', r_RequestURI := ''/up'', r_UserAgent := ''prober''\<rparr>)
   \<and> Service_ServeHTTP demoEnv
        (demoService
           \<lparr>options := (options demoService)\<lparr>TLSHostname := ''app.example.com''\<rparr>,
            pauseControl := \<lparr>pc_state = PauseStatePaused\<rparr>\<rparr>)
        demoWriter
        (demoRequest\<lparr>r_URLPath := ''/up'', r_RequestURI := ''/up'', r_UserAgent := ''prober''\<rparr>)
        demoStore
     = Inr \<lparr>h_writer = \<lparr>calls = [HeaderSet ''Connection'' ''close'',
                                  HttpRedirect ''https://app.example.com/up'' 301],
                         isHijacker = False, hijackResult = None\<rparr>,
            h_logs = [], h_upstream = [], h_store = demoStore\<rparr>
   \<and> status_sent [HeaderSet ''Connection'' ''close'',
                   HttpRedirect ''https://app.example.com/up'' 301] = Status 301"
proof -
  have d: "SplitHostPort ''app.example.com:8080'' = Inr (''app.example.com'', ''8080'')"
    by (simp add: SplitHostPort_def)
  show ?thesis
    by (simp add: Service_ServeHTTP_def recordServiceNameForRequest_def
          recordHeadersForRequest_def demoRequest_def demoService_def demoEnv_def specEnv_def
          demoWriter_def demoStore_def RequireTLS_def redirectToHTTPS_def rw_do_def d
          State_def Service_ActiveTarget_def StatusMovedPermanently_def)
qed

text \<open>
  C5, amended.  A request that is not redirected to HTTPS (the service does not
  require TLS, or the connection has TLS), arriving while the pause control is
  not Running and recognised as a health-check request, is answered with
  \<^verbatim>\<open>WriteHeader(200)\<close> at once: nothing else is written or logged, \<^verbatim>\<open>Wait\<close>
  plays no part, and the request does not go upstream.
\<close>

theorem ServeHTTP_paused_probe_200:
  assumes "record_slots s r st = Inr st2"
    and "\<not> (RequireTLS (options s) \<and> \<not> r_TLS r)"
    and "State (pauseControl s) \<noteq> PauseStateRunning"
    and "IsHealthCheckRequest e (Service_ActiveTarget s) r"
  shows "Service_ServeHTTP e s w r st =
     Inr \<lparr>h_writer = w\<lparr>calls := calls w @ [WriteHeaderCall 200]\<rparr>,
          h_logs = [], h_upstream = [], h_store = st2\<rparr>
     \<and> (status_sent (calls w) = NothingSent \<longrightarrow>
          status_sent (calls w @ [WriteHeaderCall 200]) = Status 200)"
proof -
  from assms(3,4) have stop:
    "handlePausedAndStoppedRequests e s w r = (rw_do (WriteHeaderCall StatusOK) w, [], True)"
    by (simp add: handlePausedAndStoppedRequests_def)
  from assms(2) have gate: "(RequireTLS (options s) \<and> \<not> r_TLS r) = False"
    by blast
  show ?thesis
    using ServeHTTP_after_recording [OF assms(1), of e w]
    by (simp add: gate stop rw_do_def StatusOK_def status_sent_append)
qed

theorem ServeHTTP_paused_probe_200_witness:
  "record_slots (demoService\<lparr>pauseControl := \<lparr>pc_state = PauseStatePaused\<rparr>\<rparr>)
      (demoRequest\<lparr>r_URLPath := ''/up'', r_RequestURI := ''/up'', r_UserAgent := ''prober''\<rparr>)
      demoStore = Inr demoStore
   \<and> \<not> (RequireTLS (options (demoService\<lparr>pauseControl := \<lparr>pc_state = PauseStatePaused\<rparr>\<rparr>))
        \<and> \<not> r_TLS (demoRequest\<lparr>r_URLPath := ''/up'', r_RequestURI := ''/up'',
                                  r_UserAgent := ''prober''\<rparr>))
   \<and> State (pauseControl (demoService\<lparr>pauseControl := \<lparr>pc_state = PauseStatePaused\<rparr>\<rparr>))
        \<noteq> PauseStateRunning
   \<and> IsHealthCheckRequest demoEnv
        (Service_ActiveTarget (demoService\<lparr>pauseControl := \<lparr>pc_state = PauseStatePaused\<rparr>\<rparr>))
        (demoRequest\<lparr>r_URLPath := ''/up'', r_RequestURI := ''/up'', r_UserAgent := ''prober''\<rparr>)
   \<and> Service_ServeHTTP demoEnv (demoService\<lparr>pauseControl := \<lparr>pc_state = PauseStatePaused\<rparr>\<rparr>)
        demoWriter
        (demoRequest\<lparr>r_URLPath := ''/up'', r_RequestURI := ''/up'', r_UserAgent := ''prober''\<rparr>)
        demoStore
     = Inr \<lparr>h_writer = \<lparr>calls = [WriteHeaderCall 200], isHijacker = False,
                         hijackResult = None\<rparr>,
            h_logs = [], h_upstream = [], h_store = demoStore\<rparr>"
proof -
  let ?s = "demoService\<lparr>pauseControl := \<lparr>pc_state = PauseStatePaused\<rparr>\<rparr>"
  let ?r = "demoRequest\<lparr>r_URLPath := ''/up'', r_RequestURI := ''/up'', r_UserAgent := ''prober''\<rparr>"
  have a: "record_slots ?s ?r demoStore = Inr demoStore"
    by (simp add: record_slots_def recordServiceNameForRequest_def recordHeadersForRequest_def
                  demoRequest_def)
  have b: "\<not> (RequireTLS (options ?s) \<and> \<not> r_TLS ?r)"
    by (simp add: RequireTLS_def demoService_def)
  have c: "State (pauseControl ?s) \<noteq> PauseStateRunning"
    by (simp add: State_def)
  have d: "IsHealthCheckRequest demoEnv (Service_ActiveTarget ?s) ?r"
    by (simp add: demoEnv_def specEnv_def demoRequest_def)
  from ServeHTTP_paused_probe_200 [OF a b c d, of demoWriter] a b c d
  show ?thesis
    by (simp add: demoWriter_def)
qed

text \<open>
  C6.  A request that is not a health-check request and comes to the pause step
  is handled by the result of \<^verbatim>\<open>Wait\<close>: on Proceed it goes on to the claim (503
  through \<^verbatim>\<open>http.Error\<close> if the claim fails, upstream otherwise); on Unavailable
  the answer is \<^verbatim>\<open>WriteHeader(503)\<close>; on TimedOut one warning is logged and the
  answer is \<^verbatim>\<open>WriteHeader(504)\<close>.  In the last two cases nothing goes upstream.
\<close>

theorem ServeHTTP_maps_Wait_result:
  assumes "record_slots s r st = Inr st2"
    and "\<not> (RequireTLS (options s) \<and> \<not> r_TLS r)"
    and "\<not> IsHealthCheckRequest e (Service_ActiveTarget s) r"
  shows "Service_ServeHTTP e s w r st =
     Inr (case Wait e (pauseControl s) of
            PauseWaitActionProceed \<Rightarrow>
              (case snd (ClaimTarget e s r) of
                 Inl err \<Rightarrow>
                   \<lparr>h_writer = w\<lparr>calls := calls w @ [HttpError ''Service not available'' 503]\<rparr>,
                    h_logs = [], h_upstream = [], h_store = st2\<rparr>
               | Inr req \<Rightarrow>
                   \<lparr>h_writer = w, h_logs = [], h_upstream = [(active s, req)], h_store = st2\<rparr>)
          | PauseWaitActionUnavailable \<Rightarrow>
              \<lparr>h_writer = w\<lparr>calls := calls w @ [WriteHeaderCall 503]\<rparr>,
               h_logs = [], h_upstream = [], h_store = st2\<rparr>
          | PauseWaitActionTimedOut \<Rightarrow>
              \<lparr>h_writer = w\<lparr>calls := calls w @ [WriteHeaderCall 504]\<rparr>,
               h_logs = [(WARN, ''Rejecting request due to expired pause'',
                          [(''service'', Str (name s)), (''path'', Str (r_URLPath r))])],
               h_upstream = [], h_store = st2\<rparr>)"
proof -
  from assms(2) have gate: "(RequireTLS (options s) \<and> \<not> r_TLS r) = False"
    by blast
  have claim: "ClaimTarget e s r = (active s, snd (ClaimTarget e s r))"
    by (simp add: ClaimTarget_def)
  show ?thesis
  proof (cases "Wait e (pauseControl s)")
    case PauseWaitActionProceed
    with assms(3) have "handlePausedAndStoppedRequests e s w r = (w, [], False)"
      by (simp add: handlePausedAndStoppedRequests_def)
    with PauseWaitActionProceed show ?thesis
      using ServeHTTP_after_recording [OF assms(1), of e w] claim
      by (cases "snd (ClaimTarget e s r)")
         (simp_all add: gate rw_do_def StatusServiceUnavailable_def)
  next
    case PauseWaitActionTimedOut
    with assms(3) have "handlePausedAndStoppedRequests e s w r =
        (rw_do (WriteHeaderCall StatusGatewayTimeout) w,
         [(WARN, ''Rejecting request due to expired pause'',
           [(''service'', Str (name s)), (''path'', Str (r_URLPath r))])], True)"
      by (simp add: handlePausedAndStoppedRequests_def)
    with PauseWaitActionTimedOut show ?thesis
      using ServeHTTP_after_recording [OF assms(1), of e w]
      by (simp add: gate rw_do_def StatusGatewayTimeout_def)
  next
    case PauseWaitActionUnavailable
    with assms(3) have "handlePausedAndStoppedRequests e s w r =
        (rw_do (WriteHeaderCall StatusServiceUnavailable) w, [], True)"
      by (simp add: handlePausedAndStoppedRequests_def)
    with PauseWaitActionUnavailable show ?thesis
      using ServeHTTP_after_recording [OF assms(1), of e w]
      by (simp add: gate rw_do_def StatusServiceUnavailable_def)
  qed
qed

theorem ServeHTTP_maps_Wait_result_witness:
  "record_slots (demoService\<lparr>pauseControl := \<lparr>pc_state = PauseStatePaused\<rparr>\<rparr>)
      demoRequest demoStore = Inr demoStore
   \<and> \<not> (RequireTLS (options (demoService\<lparr>pauseControl := \<lparr>pc_state = PauseStatePaused\<rparr>\<rparr>))
        \<and> \<not> r_TLS demoRequest)
   \<and> \<not> IsHealthCheckRequest demoEnv
        (Service_ActiveTarget (demoService\<lparr>pauseControl := \<lparr>pc_state = PauseStatePaused\<rparr>\<rparr>))
        demoRequest
   \<and> Service_ServeHTTP demoEnv (demoService\<lparr>pauseControl := \<lparr>pc_state = PauseStatePaused\<rparr>\<rparr>)
        demoWriter demoRequest demoStore
     = Inr \<lparr>h_writer = \<lparr>calls = [WriteHeaderCall 504], isHijacker = False,
                         hijackResult = None\<rparr>,
            h_logs = [(WARN, ''Rejecting request due to expired pause'',
                       [(''service'', Str ''myapp''), (''path'', Str ''/somepath'')])],
            h_upstream = [], h_store = demoStore\<rparr>
   \<and> Service_ServeHTTP demoEnv (demoService\<lparr>pauseControl := \<lparr>pc_state = PauseStateStopped\<rparr>\<rparr>)
        demoWriter demoRequest demoStore
     = Inr \<lparr>h_writer = \<lparr>calls = [WriteHeaderCall 503], isHijacker = False,
                         hijackResult = None\<rparr>,
            h_logs = [], h_upstream = [], h_store = demoStore\<rparr>
   \<and> Service_ServeHTTP demoEnv demoService demoWriter demoRequest demoStore
     = Inr \<lparr>h_writer = demoWriter, h_logs = [],
            h_upstream = [(Some demoTarget, demoRequest)], h_store = demoStore\<rparr>"
proof -
  have a: "record_slots (demoService\<lparr>pauseControl := pc\<rparr>) demoRequest demoStore = Inr demoStore"
    for pc
    by (simp add: record_slots_def recordServiceNameForRequest_def recordHeadersForRequest_def
                  demoRequest_def)
  have b: "\<not> (RequireTLS (options (demoService\<lparr>pauseControl := pc\<rparr>)) \<and> \<not> r_TLS demoRequest)"
    for pc
    by (simp add: RequireTLS_def demoService_def)
  have c: "\<not> IsHealthCheckRequest demoEnv
        (Service_ActiveTarget (demoService\<lparr>pauseControl := pc\<rparr>)) demoRequest"
    for pc
    by (simp add: demoEnv_def specEnv_def demoRequest_def)
  have w: "Wait demoEnv \<lparr>pc_state = PauseStatePaused\<rparr> = PauseWaitActionTimedOut"
    "Wait demoEnv \<lparr>pc_state = PauseStateStopped\<rparr> = PauseWaitActionUnavailable"
    "Wait demoEnv \<lparr>pc_state = PauseStateRunning\<rparr> = PauseWaitActionProceed"
    by (simp_all add: demoEnv_def specEnv_def State_def)
  have n: "name demoService = ''myapp''" "r_URLPath demoRequest = ''/somepath''"
    "active demoService = Some demoTarget"
    by (simp_all add: demoService_def demoRequest_def)
  have k: "snd (ClaimTarget demoEnv (demoService\<lparr>pauseControl := pc\<rparr>) demoRequest)
      = Inr demoRequest" for pc
    by (simp add: ClaimTarget_def demoEnv_def specEnv_def demoService_def demoTarget_def)
  have run: "demoService\<lparr>pauseControl := \<lparr>pc_state = PauseStateRunning\<rparr>\<rparr> = demoService"
    by (simp add: demoService_def NewPauseControl_def)
  note paused = ServeHTTP_maps_Wait_result [OF a b c, of "\<lparr>pc_state = PauseStatePaused\<rparr>"
      demoWriter]
  note stopped = ServeHTTP_maps_Wait_result [OF a b c, of "\<lparr>pc_state = PauseStateStopped\<rparr>"
      demoWriter]
  note running = ServeHTTP_maps_Wait_result [OF a b c, of "\<lparr>pc_state = PauseStateRunning\<rparr>"
      demoWriter]
  from paused have p1: "Service_ServeHTTP demoEnv
        (demoService\<lparr>pauseControl := \<lparr>pc_state = PauseStatePaused\<rparr>\<rparr>)
        demoWriter demoRequest demoStore
     = Inr \<lparr>h_writer = \<lparr>calls = [WriteHeaderCall 504], isHijacker = False,
                         hijackResult = None\<rparr>,
            h_logs = [(WARN, ''Rejecting request due to expired pause'',
                       [(''service'', Str ''myapp''), (''path'', Str ''/somepath'')])],
            h_upstream = [], h_store = demoStore\<rparr>"
    by (simp add: w n) (simp add: demoWriter_def)
  from stopped have p2: "Service_ServeHTTP demoEnv
        (demoService\<lparr>pauseControl := \<lparr>pc_state = PauseStateStopped\<rparr>\<rparr>)
        demoWriter demoRequest demoStore
     = Inr \<lparr>h_writer = \<lparr>calls = [WriteHeaderCall 503], isHijacker = False,
                         hijackResult = None\<rparr>,
            h_logs = [], h_upstream = [], h_store = demoStore\<rparr>"
    by (simp add: w) (simp add: demoWriter_def)
  from running have p3: "Service_ServeHTTP demoEnv demoService demoWriter demoRequest demoStore
     = Inr \<lparr>h_writer = demoWriter, h_logs = [],
            h_upstream = [(Some demoTarget, demoRequest)], h_store = demoStore\<rparr>"
    by (simp add: w k n) (simp add: run n)
  from a b c p1 p2 p3 show ?thesis by blast
qed

text \<open>
  What the decoders make of what the encoders wrote, and the result of saving and
  restoring in \<open>savedEnv\<close>.
\<close>

lemma toValidUTF8_valid: "valid_utf8 s \<Longrightarrow> toValidUTF8 s = s"
proof (induction s rule: valid_utf8.induct)
  case (1 s)
  show ?case
  proof (cases "s = []")
    case True
    then show ?thesis by (simp add: toValidUTF8.simps)
  next
    case False
    with "1.prems" have n: "rune_len s \<noteq> 0" and v: "valid_utf8 (drop (rune_len s) s)"
      by (simp_all add: valid_utf8.simps [of s] split: if_splits)
    from "1.IH" [OF False n v] have "toValidUTF8 (drop (rune_len s) s) = drop (rune_len s) s" .
    with False n show ?thesis
      by (simp add: toValidUTF8.simps [of s])
  qed
qed

lemma valid_utf8_ascii: "list_all (\<lambda>c. byte c < 0x80) s \<Longrightarrow> valid_utf8 s"
proof (induction s)
  case Nil
  show ?case by (simp add: valid_utf8.simps)
next
  case (Cons a s)
  then show ?case by (simp add: valid_utf8.simps [of "a # s"])
qed

lemma dec_enc_string: "dec_string (Some (enc_string s)) = Inr (toValidUTF8 s)"
  by (simp add: enc_string_def)

lemma dec_elements_enc: "dec_elements (map enc_string xs) = Inr (map toValidUTF8 xs)"
  by (induction xs) (simp_all add: enc_string_def and_then_def)

lemma dec_enc_strings: "dec_strings (Some (enc_strings xs)) = Inr (map toValidUTF8 xs)"
  by (simp add: enc_strings_def dec_elements_enc)

lemma dec_enc_ServiceOptions:
  "dec_ServiceOptions (Some (enc_ServiceOptions so)) =
     Inr \<lparr>TLSHostname = toValidUTF8 (TLSHostname so),
          ACMEDirectory = toValidUTF8 (ACMEDirectory so),
          ACMECachePath = toValidUTF8 (ACMECachePath so),
          LogHeaders = map toValidUTF8 (LogHeaders so)\<rparr>"
  by (simp add: dec_ServiceOptions_def enc_ServiceOptions_def and_then_def member_def
                dec_enc_string dec_enc_strings)

lemma dec_enc_HealthCheckConfig:
  "dec_HealthCheckConfig (Some (enc_HealthCheckConfig hc)) =
     Inr (hc\<lparr>Path := toValidUTF8 (Path hc)\<rparr>)"
  by (simp add: dec_HealthCheckConfig_def enc_HealthCheckConfig_def and_then_def member_def
                dec_enc_string)

lemma dec_enc_TargetOptions:
  "dec_TargetOptions (Some (enc_TargetOptions t)) =
     Inr (t\<lparr>HealthCheckConfig :=
             (HealthCheckConfig t)\<lparr>Path := toValidUTF8 (Path (HealthCheckConfig t))\<rparr>\<rparr>)"
  by (simp add: dec_TargetOptions_def enc_TargetOptions_def and_then_def member_def
                dec_enc_HealthCheckConfig)

lemma dec_enc_marshalledService:
  "dec_marshalledService (Some (enc_marshalledService ms)) =
     Inr \<lparr>Name = toValidUTF8 (Name ms), Host = toValidUTF8 (Host ms),
          ActiveTarget = toValidUTF8 (ActiveTarget ms),
          Options = \<lparr>TLSHostname = toValidUTF8 (TLSHostname (Options ms)),
                     ACMEDirectory = toValidUTF8 (ACMEDirectory (Options ms)),
                     ACMECachePath = toValidUTF8 (ACMECachePath (Options ms)),
                     LogHeaders = map toValidUTF8 (LogHeaders (Options ms))\<rparr>,
          TargetOptions = (TargetOptions ms)\<lparr>HealthCheckConfig :=
             (HealthCheckConfig (TargetOptions ms))
               \<lparr>Path := toValidUTF8 (Path (HealthCheckConfig (TargetOptions ms)))\<rparr>\<rparr>\<rparr>"
  by (simp add: dec_marshalledService_def enc_marshalledService_def and_then_def member_def
                dec_enc_string dec_enc_ServiceOptions dec_enc_TargetOptions)

lemma map_toValidUTF8_valid: "list_all valid_utf8 xs \<Longrightarrow> map toValidUTF8 xs = xs"
  by (induction xs) (simp_all add: toValidUTF8_valid)

lemma save_and_restore_savedEnv:
  assumes "active s = Some t"
  shows "save_and_restore (savedEnv l) s0 s =
     Some (\<lparr>name = toValidUTF8 (name s), host = toValidUTF8 (host s),
            options = \<lparr>TLSHostname = toValidUTF8 (TLSHostname (options s)),
                       ACMEDirectory = toValidUTF8 (ACMEDirectory (options s)),
                       ACMECachePath = toValidUTF8 (ACMECachePath (options s)),
                       LogHeaders = map toValidUTF8 (LogHeaders (options s))\<rparr>,
            active = Some \<lparr>t_address = toValidUTF8 (t_address t),
                            t_options = (t_options t)\<lparr>HealthCheckConfig :=
                               (HealthCheckConfig (t_options t))
                                 \<lparr>Path := toValidUTF8 (Path (HealthCheckConfig (t_options t)))\<rparr>\<rparr>,
                            t_state = TargetStateHealthy, t_inflight = 0\<rparr>,
            pauseControl = NewPauseControl,
            certManager =
              (if toValidUTF8 (TLSHostname (options s)) = [] then None
               else Some \<lparr>Cache = path_Join l (toValidUTF8 (ACMECachePath (options s)))
                                     (sha256_hex l (toValidUTF8 (ACMEDirectory (options s)))),
                          HostPolicy = toValidUTF8 (TLSHostname (options s)),
                          DirectoryURL = toValidUTF8 (ACMEDirectory (options s))\<rparr>)\<rparr>,
           None)"
  using assms
  by (simp add: save_and_restore_def MarshalJSON_def UnmarshalJSON_def Service_ActiveTarget_def
                savedEnv_def specEnv_def dec_enc_marshalledService Target_Target_def
                initialize_def createCertManager_def ScopedCachePath_def Let_def)

text \<open>
  C8, as stated, fails: a service whose name is the single byte FF, which is not
  UTF-8, comes back with the name EF BF BD (U+FFFD).
\<close>

theorem name_not_UTF8_is_not_restored_counterexample:
  "active (savedService\<lparr>name := [CHR 0xFF]\<rparr>) = Some savedTarget
   \<and> map_option (\<lambda>r. (name (fst r), snd r))
        (save_and_restore (savedEnv plainLib) savedService (savedService\<lparr>name := [CHR 0xFF]\<rparr>))
      = Some ([CHR 0xEF, CHR 0xBF, CHR 0xBD], None)
   \<and> name (savedService\<lparr>name := [CHR 0xFF]\<rparr>) = [CHR 0xFF]
   \<and> [CHR 0xEF, CHR 0xBF, CHR 0xBD] \<noteq> [CHR 0xFF]"
proof -
  have a: "active (savedService\<lparr>name := [CHR 0xFF]\<rparr>) = Some savedTarget"
    by (simp add: savedService_def)
  have c: "toValidUTF8 [CHR 0xFF] = [CHR 0xEF, CHR 0xBF, CHR 0xBD]"
    by (simp add: toValidUTF8.simps [of "[CHR 0xFF]"] toValidUTF8.simps [of "[]"] byte_def)
  show ?thesis
    using save_and_restore_savedEnv [OF a, of plainLib savedService]
    by (simp add: a c)
qed

text \<open>
  C8, amended.  Saving a service that has an active target, and whose strings
  are valid UTF-8, and restoring from the document gives a service with the same
  name, host and options, whose active target has the same address and target
  options and is Healthy with nothing in flight, whose pause control is a new
  one, Running, and whose certificate manager is made from the options,
  whatever the receiver held before.
\<close>

theorem Service_round_trips_through_JSON:
  assumes "active s = Some t"
    and "strings_valid s t"
  shows "save_and_restore (savedEnv l) s0 s =
     Some (\<lparr>name = name s, host = host s, options = options s,
            active = Some \<lparr>t_address = t_address t, t_options = t_options t,
                            t_state = TargetStateHealthy, t_inflight = 0\<rparr>,
            pauseControl = NewPauseControl,
            certManager = createCertManager l s\<rparr>, None)
     \<and> State NewPauseControl = PauseStateRunning"
proof -
  from assms(2) have v:
    "toValidUTF8 (name s) = name s" "toValidUTF8 (host s) = host s"
    "toValidUTF8 (TLSHostname (options s)) = TLSHostname (options s)"
    "toValidUTF8 (ACMEDirectory (options s)) = ACMEDirectory (options s)"
    "toValidUTF8 (ACMECachePath (options s)) = ACMECachePath (options s)"
    "map toValidUTF8 (LogHeaders (options s)) = LogHeaders (options s)"
    "toValidUTF8 (t_address t) = t_address t"
    "toValidUTF8 (Path (HealthCheckConfig (t_options t))) = Path (HealthCheckConfig (t_options t))"
    by (simp_all add: strings_valid_def toValidUTF8_valid map_toValidUTF8_valid)
  show ?thesis
    using save_and_restore_savedEnv [OF assms(1), of l s0]
    by (simp add: v createCertManager_def ScopedCachePath_def NewPauseControl_def State_def)
qed

theorem Service_round_trips_through_JSON_witness:
  "active savedService = Some savedTarget
   \<and> strings_valid savedService savedTarget
   \<and> save_and_restore (savedEnv plainLib)
        \<lparr>name = [], host = [],
         options = \<lparr>TLSHostname = [], ACMEDirectory = [], ACMECachePath = [], LogHeaders = []\<rparr>,
         active = None, pauseControl = \<lparr>pc_state = PauseStateStopped\<rparr>, certManager = None\<rparr>
        savedService
      = Some (savedService\<lparr>active := Some (savedTarget\<lparr>t_inflight := 0\<rparr>),
                           pauseControl := \<lparr>pc_state = PauseStateRunning\<rparr>\<rparr>, None)"
proof -
  have a: "active savedService = Some savedTarget"
    by (simp add: savedService_def)
  have b: "strings_valid savedService savedTarget"
    by (simp add: strings_valid_def savedService_def savedTarget_def valid_utf8_ascii byte_def)
  from Service_round_trips_through_JSON [OF a b, of plainLib] a b
  show ?thesis
    by (simp add: savedService_def savedTarget_def createCertManager_def NewPauseControl_def)
qed

end
